theory Spec2Isabelle
  imports Main "HOL-Library.Sublist"
begin

section \<open>Image push orchestration (libimage/push.go)\<close>

text \<open>
  A shallow embedding of \<^verbatim>\<open>Runtime.Push\<close> and \<^verbatim>\<open>pushImage\<close>.
  The functions of other files and of other libraries that the two call (the local
  image store, the transport parser, the reference parser, the copier, the clock)
  are fields of an environment record; the ones that read or change the machine are
  given the state of the outside world and return the next one, so that two calls
  of the same collaborator may answer differently.

  A Go result pair \<^verbatim>\<open>([]byte, error)\<close> is a pair of options, \<open>None\<close> for
  \<^verbatim>\<open>nil\<close>. Where the source tests \<^verbatim>\<open>err != nil\<close> and drops the other
  results, the collaborator returns a sum, \<open>Inl\<close> the error.
  \<^verbatim>\<open>logrus.Debugf\<close> lines are not modelled.
\<close>

subsection \<open>Data\<close>

type_synonym time = nat

type_synonym bytes = "nat list"

text \<open>
  An error is either made in this file by \<^verbatim>\<open>fmt.Errorf\<close> (a fresh value,
  told apart by its message) or it is a value that a collaborator returned and that
  this file passes on untouched.
\<close>

datatype error = Errorf string | External string

type_synonym result = "bytes option \<times> error option"

text \<open>\<^verbatim>\<open>types.ImageReference\<close>: what this file reads of it is the name of its transport.\<close>

record ImageReference =
  Transport_Name :: string
  StringWithinTransport :: string

text \<open>\<^verbatim>\<open>reference.NamedTagged\<close> and \<^verbatim>\<open>reference.Named\<close> of containers/image:
  \<open>Repository\<close> is what \<^verbatim>\<open>Name()\<close> returns and \<open>Tag\<close> what \<^verbatim>\<open>Tag()\<close>
  returns. The type assertion \<^verbatim>\<open>named.(reference.NamedTagged)\<close> succeeds on
  \<open>Tagged\<close> only.\<close>

record NamedTagged =
  Repository :: string
  Tag :: string

datatype Named = Untagged string | Tagged NamedTagged

text \<open>\<^verbatim>\<open>Event\<close> and \<^verbatim>\<open>EventType\<close> are declared in another file of the package.
  The record has the four fields that line 108 sets; of the event types this file
  names \<^verbatim>\<open>EventTypeImagePush\<close> only, and \<open>EventTypeOther\<close> stands for the rest.\<close>

datatype EventType = EventTypeOther | EventTypeImagePush

record Event =
  ID :: string
  Name :: string
  Time :: time
  Type :: EventType

text \<open>
  \<^verbatim>\<open>CopyOptions\<close> is declared in another file. This file writes one field of it,
  \<^verbatim>\<open>dockerArchiveAdditionalTags\<close>, and hands the struct to \<^verbatim>\<open>newCopier\<close>;
  the remaining fields are kept as an association list from field name to value.
\<close>

record CopyOptions =
  otherFields :: "(string \<times> string) list"
  dockerArchiveAdditionalTags :: "NamedTagged list"

record PushOptions =
  CopyOptions :: CopyOptions
  AllTags :: bool

text \<open>The zero value \<^verbatim>\<open>PushOptions{}\<close>.\<close>

definition PushOptions_zero :: PushOptions where
  "PushOptions_zero =
     \<lparr>CopyOptions = \<lparr>otherFields = [], dockerArchiveAdditionalTags = []\<rparr>, AllTags = False\<rparr>"

text \<open>\<^verbatim>\<open>dockerTransport.Transport.Name()\<close> and
  \<^verbatim>\<open>dockerArchiveTransport.Transport.Name()\<close> of containers/image.\<close>

definition dockerTransport_Name :: string where
  "dockerTransport_Name = ''docker''"

definition dockerArchiveTransport_Name :: string where
  "dockerArchiveTransport_Name = ''docker-archive''"

subsection \<open>Collaborators and effects\<close>

text \<open>
  The calls that leave this file and matter to a caller, in the order they happen.
  \<open>Call_pushImage\<close> marks an entry into \<^verbatim>\<open>pushImage\<close> with its destination
  argument; the others are the calls to \<^verbatim>\<open>r.writeEvent\<close>, \<^verbatim>\<open>r.newCopier\<close>,
  \<^verbatim>\<open>c.copy\<close> and \<^verbatim>\<open>c.close\<close> with their arguments.
\<close>

datatype 'c call =
    Call_pushImage string
  | Call_writeEvent Event
  | Call_newCopier CopyOptions
  | Call_copy 'c ImageReference ImageReference
  | Call_close 'c

record ('i, 'c, 'w) env =
  eventChannel :: bool
  LookupImage :: "string \<Rightarrow> 'w \<Rightarrow> (string + 'i \<times> string) \<times> 'w"
  NamedTaggedRepoTags :: "'i \<Rightarrow> 'w \<Rightarrow> (string + NamedTagged list) \<times> 'w"
  StorageReference :: "'i \<Rightarrow> 'w \<Rightarrow> (string + ImageReference) \<times> 'w"
  Image_ID :: "'i \<Rightarrow> string"
  ParseImageName :: "string \<Rightarrow> string + ImageReference"
  ParseNamed :: "string \<Rightarrow> string + Named"
  time_Now :: "'w \<Rightarrow> time"
  newCopier :: "CopyOptions \<Rightarrow> 'w \<Rightarrow> (string + 'c) \<times> 'w"
  copier_copy :: "'c \<Rightarrow> ImageReference \<Rightarrow> ImageReference \<Rightarrow> 'w
                    \<Rightarrow> (bytes option \<times> string option) \<times> 'w"
  copier_close :: "'c \<Rightarrow> 'w \<Rightarrow> 'w"

text \<open>
  \<open>eventChannel\<close> is \<^verbatim>\<open>r.eventChannel != nil\<close>. \<open>opts\<close> is the struct behind the
  \<^verbatim>\<open>*PushOptions\<close> pointer, which the caller shares with \<^verbatim>\<open>pushImage\<close>.
\<close>

record ('c, 'w) state =
  opts :: PushOptions
  world :: 'w
  trace :: "'c call list"

subsection \<open>String helpers of the Go library\<close>

definition TrimPrefix :: "string \<Rightarrow> string \<Rightarrow> string" where
  "TrimPrefix s p = (if prefix p s then drop (length p) s else s)"

definition ContainsAny :: "string \<Rightarrow> string \<Rightarrow> bool" where
  "ContainsAny s chars = list_ex (\<lambda>c. c \<in> set chars) s"

subsection \<open>pushImage\<close>

text \<open>Lines 91 to 100: parse the destination, then parse it again behind
  \<^verbatim>\<open>docker://\<close>; when both fail the first error is the one returned.\<close>

definition parseDestination ::
  "('i, 'c, 'w) env \<Rightarrow> string \<Rightarrow> string + ImageReference" where
  "parseDestination E destination =
     (case ParseImageName E destination of
        Inr destRef \<Rightarrow> Inr destRef
      | Inl err \<Rightarrow>
          (case ParseImageName E (''docker://'' @ destination) of
             Inl dockerErr \<Rightarrow> Inl err
           | Inr dockerRef \<Rightarrow> Inr dockerRef))"

text \<open>Lines 113 to 120: the options after the Buildah-compat block.\<close>

definition archiveTag ::
  "('i, 'c, 'w) env \<Rightarrow> string \<Rightarrow> ImageReference \<Rightarrow> PushOptions \<Rightarrow> PushOptions" where
  "archiveTag E destination destRef options =
     (if Transport_Name destRef = dockerArchiveTransport_Name then
        (case ParseNamed E destination of
           Inr (Tagged tagged) \<Rightarrow>
             options\<lparr>CopyOptions := (CopyOptions options)\<lparr>dockerArchiveAdditionalTags := [tagged]\<rparr>\<rparr>
         | Inr (Untagged n) \<Rightarrow> options
         | Inl err \<Rightarrow> options)
      else options)"

text \<open>Lines 107 to 109: the calls deferred by the event block, with the event built
  when the \<^verbatim>\<open>defer\<close> statement runs.\<close>

definition deferredEvent ::
  "('i, 'c, 'w) env \<Rightarrow> string \<Rightarrow> 'i \<Rightarrow> 'w \<Rightarrow> 'c call list" where
  "deferredEvent E destination img w =
     (if eventChannel E then
        [Call_writeEvent \<lparr>ID = Image_ID E img, Name = destination,
                          Time = time_Now E w, Type = EventTypeImagePush\<rparr>]
      else [])"

text \<open>Lines 122 to 129, followed by the deferred calls, last registered first.\<close>

definition runCopier ::
  "('i, 'c, 'w) env \<Rightarrow> ImageReference \<Rightarrow> ImageReference \<Rightarrow> 'c call list
     \<Rightarrow> ('c, 'w) state \<Rightarrow> result \<times> ('c, 'w) state" where
  "runCopier E srcRef destRef deferred s =
     (case newCopier E (CopyOptions (opts s)) (world s) of
        (Inl err, w) \<Rightarrow>
          ((None, Some (External err)),
           s\<lparr>world := w,
             trace := trace s @ [Call_newCopier (CopyOptions (opts s))] @ deferred\<rparr>)
      | (Inr c, w) \<Rightarrow>
          (case copier_copy E c srcRef destRef w of
             ((b, err), w') \<Rightarrow>
               ((b, map_option External err),
                s\<lparr>world := copier_close E c w',
                  trace := trace s @ [Call_newCopier (CopyOptions (opts s)),
                                      Call_copy c srcRef destRef, Call_close c] @ deferred\<rparr>)))"

definition pushImage ::
  "('i, 'c, 'w) env \<Rightarrow> string \<Rightarrow> 'i \<Rightarrow> ('c, 'w) state \<Rightarrow> result \<times> ('c, 'w) state" where
  "pushImage E destination img s0 =
     (let s = s0\<lparr>trace := trace s0 @ [Call_pushImage destination]\<rparr> in
      case StorageReference E img (world s) of
        (Inl err, w) \<Rightarrow> ((None, Some (External err)), s\<lparr>world := w\<rparr>)
      | (Inr srcRef, w) \<Rightarrow>
          (case parseDestination E destination of
             Inl err \<Rightarrow> ((None, Some (External err)), s\<lparr>world := w\<rparr>)
           | Inr destRef \<Rightarrow>
               if Transport_Name destRef \<noteq> dockerTransport_Name \<and> AllTags (opts s) then
                 ((None, Some (Errorf ''--all-tags can only be used with docker transport'')),
                  s\<lparr>world := w\<rparr>)
               else
                 runCopier E srcRef destRef (deferredEvent E destination img w)
                   (s\<lparr>world := w, opts := archiveTag E destination destRef (opts s)\<rparr>)))"

subsection \<open>Push\<close>

text \<open>Lines 68 to 74: the loop over the tags.\<close>

fun pushTags ::
  "('i, 'c, 'w) env \<Rightarrow> string \<Rightarrow> 'i \<Rightarrow> NamedTagged list \<Rightarrow> ('c, 'w) state
     \<Rightarrow> result \<times> ('c, 'w) state" where
  "pushTags E destination img [] s = ((None, None), s)"
| "pushTags E destination img (tag # tags) s =
     (case pushImage E (destination @ '':'' @ Tag tag) img s of
        ((b, Some err), s') \<Rightarrow> ((None, Some err), s')
      | ((b, None), s') \<Rightarrow> pushTags E destination img tags s')"

definition Push ::
  "('i, 'c, 'w) env \<Rightarrow> string \<Rightarrow> string \<Rightarrow> PushOptions option \<Rightarrow> 'w
     \<Rightarrow> result \<times> ('c, 'w) state" where
  "Push E source destination0 options0 w0 =
     (let options = (case options0 of None \<Rightarrow> PushOptions_zero | Some p \<Rightarrow> p);
          s0 = \<lparr>opts = options, world = w0, trace = []\<rparr> in
      case LookupImage E source w0 of
        (Inl err, w) \<Rightarrow> ((None, Some (External err)), s0\<lparr>world := w\<rparr>)
      | (Inr (img, resolvedSource), w) \<Rightarrow>
          (let destination = (if destination0 = [] then resolvedSource else destination0);
               s1 = s0\<lparr>world := w\<rparr> in
           if AllTags options then
             (if ContainsAny (TrimPrefix destination ''docker://'') '':'' then
                ((None, Some (Errorf ''tag can't be used with --all-tags/-a'')), s1)
              else
                (case NamedTaggedRepoTags E img w of
                   (Inl err, w') \<Rightarrow> ((None, Some (External err)), s1\<lparr>world := w'\<rparr>)
                 | (Inr namedRepoTags, w') \<Rightarrow>
                     pushTags E destination img namedRepoTags (s1\<lparr>world := w'\<rparr>)))
           else pushImage E destination img s1))"

subsection \<open>Reading a trace\<close>

text \<open>The destinations \<^verbatim>\<open>pushImage\<close> was entered with, the events handed to
  \<^verbatim>\<open>writeEvent\<close> and the options handed to \<^verbatim>\<open>newCopier\<close>, oldest first.\<close>

fun pushedDestinations :: "'c call list \<Rightarrow> string list" where
  "pushedDestinations [] = []"
| "pushedDestinations (Call_pushImage d # cs) = d # pushedDestinations cs"
| "pushedDestinations (c # cs) = pushedDestinations cs"

fun writtenEvents :: "'c call list \<Rightarrow> Event list" where
  "writtenEvents [] = []"
| "writtenEvents (Call_writeEvent ev # cs) = ev # writtenEvents cs"
| "writtenEvents (c # cs) = writtenEvents cs"

fun copierOptions :: "'c call list \<Rightarrow> CopyOptions list" where
  "copierOptions [] = []"
| "copierOptions (Call_newCopier p # cs) = p # copierOptions cs"
| "copierOptions (c # cs) = copierOptions cs"

subsection \<open>A concrete set of collaborators\<close>

text \<open>
  A small instance of the environment on which the theorems below are exercised.
  An image is its identifier, a copier is a number, and the world is a clock that
  every call of the store and of the copier advances. The transport parser cuts its
  argument at the first colon, knows five transports and takes no registry reference
  that is empty or holds a space; the reference parser knows three strings. The copier
  refuses the destination \<^verbatim>\<open>//quay.io/app:v2\<close>, and no copier can be made when
  the options name the authentication file \<^verbatim>\<open>/missing\<close>.
\<close>

definition example_transports :: "string list" where
  "example_transports =
     [''docker'', ''docker-archive'', ''dir'', ''oci-archive'', ''containers-storage'']"

definition example_ParseImageName :: "string \<Rightarrow> string + ImageReference" where
  "example_ParseImageName s =
     (let t = takeWhile (\<lambda>c. c \<noteq> CHR '':'') s; rest = drop (Suc (length t)) s in
      if t = s then Inl ''expected colon-separated transport:reference''
      else if t \<notin> set example_transports then Inl ''unknown transport''
      else if t = ''docker'' \<and> (\<not> prefix ''//'' rest \<or> rest = ''//'' \<or> CHR '' '' \<in> set rest)
        then Inl ''invalid reference format''
      else Inr \<lparr>Transport_Name = t, StringWithinTransport = rest\<rparr>)"

definition example_ParseNamed :: "string \<Rightarrow> string + Named" where
  "example_ParseNamed s =
     (if s = ''docker-archive:5000/app:v1'' then
        Inr (Tagged \<lparr>Repository = ''docker-archive:5000/app'', Tag = ''v1''\<rparr>)
      else if s = ''docker-archive:5000/app'' then Inr (Untagged ''docker-archive:5000/app'')
      else if s = ''quay.io/app:v1'' then
        Inr (Tagged \<lparr>Repository = ''quay.io/app'', Tag = ''v1''\<rparr>)
      else Inl ''invalid reference format'')"

definition example_tags :: "NamedTagged list" where
  "example_tags =
     [\<lparr>Repository = ''localhost/app'', Tag = ''v1''\<rparr>,
      \<lparr>Repository = ''localhost/app'', Tag = ''v2''\<rparr>,
      \<lparr>Repository = ''localhost/app'', Tag = ''v3''\<rparr>]"

definition example_env :: "(string, nat, nat) env" where
  "example_env =
     \<lparr>eventChannel = True,
      LookupImage = (\<lambda>source w.
         if source = ''app'' then (Inr (''a1b2'', ''localhost/app''), Suc w)
         else if source = ''base'' then (Inr (''c3d4'', ''localhost/base''), Suc w)
         else (Inl ''image not known'', Suc w)),
      NamedTaggedRepoTags = (\<lambda>img w.
         if img = ''a1b2'' then (Inr example_tags, Suc w) else (Inr [], Suc w)),
      StorageReference = (\<lambda>img w.
         (Inr \<lparr>Transport_Name = ''containers-storage'', StringWithinTransport = img\<rparr>, Suc w)),
      Image_ID = (\<lambda>img. img),
      ParseImageName = example_ParseImageName,
      ParseNamed = example_ParseNamed,
      time_Now = (\<lambda>w. w),
      newCopier = (\<lambda>p w.
         if (''AuthFilePath'', ''/missing'') \<in> set (otherFields p)
         then (Inl ''no such file'', Suc w) else (Inr w, Suc w)),
      copier_copy = (\<lambda>c srcRef destRef w.
         if StringWithinTransport destRef = ''//quay.io/app:v2''
         then ((None, Some ''connection refused''), Suc w)
         else ((Some [1, 2, 3], None), Suc w)),
      copier_close = (\<lambda>c w. Suc w)\<rparr>"

definition example_state :: "PushOptions \<Rightarrow> (nat, nat) state" where
  "example_state p = \<lparr>opts = p, world = 0, trace = []\<rparr>"

definition example_all_tags :: PushOptions where
  "example_all_tags = PushOptions_zero\<lparr>AllTags := True\<rparr>"

definition example_missing_auth :: PushOptions where
  "example_missing_auth =
     \<lparr>CopyOptions = \<lparr>otherFields = [(''AuthFilePath'', ''/missing'')],
                     dockerArchiveAdditionalTags = []\<rparr>,
      AllTags = False\<rparr>"

section \<open>Lemmas about the model\<close>

subsection \<open>Traces\<close>

lemma pushedDestinations_append [simp]:
  "pushedDestinations (xs @ ys) = pushedDestinations xs @ pushedDestinations ys"
  by (induction xs rule: pushedDestinations.induct) simp_all

lemma writtenEvents_append [simp]:
  "writtenEvents (xs @ ys) = writtenEvents xs @ writtenEvents ys"
  by (induction xs rule: writtenEvents.induct) simp_all

lemma copierOptions_append [simp]:
  "copierOptions (xs @ ys) = copierOptions xs @ copierOptions ys"
  by (induction xs rule: copierOptions.induct) simp_all

lemma writtenEvents_deferredEvent:
  "writtenEvents (deferredEvent E destination img w) =
     (if eventChannel E then
        [\<lparr>ID = Image_ID E img, Name = destination, Time = time_Now E w,
          Type = EventTypeImagePush\<rparr>]
      else [])"
  by (simp add: deferredEvent_def)

lemma pushedDestinations_deferredEvent [simp]:
  "pushedDestinations (deferredEvent E destination img w) = []"
  by (simp add: deferredEvent_def)

lemma copierOptions_deferredEvent [simp]:
  "copierOptions (deferredEvent E destination img w) = []"
  by (simp add: deferredEvent_def)

text \<open>What \<open>runCopier\<close> does to each part of the state.\<close>

lemma runCopier_opts [simp]:
  "opts (snd (runCopier E srcRef destRef deferred s)) = opts s"
  by (simp add: runCopier_def split: prod.splits sum.splits)

lemma runCopier_pushed [simp]:
  "pushedDestinations (trace (snd (runCopier E srcRef destRef deferred s))) =
     pushedDestinations (trace s) @ pushedDestinations deferred"
  by (simp add: runCopier_def split: prod.splits sum.splits)

lemma runCopier_events [simp]:
  "writtenEvents (trace (snd (runCopier E srcRef destRef deferred s))) =
     writtenEvents (trace s) @ writtenEvents deferred"
  by (simp add: runCopier_def split: prod.splits sum.splits)

lemma runCopier_copierOptions [simp]:
  "copierOptions (trace (snd (runCopier E srcRef destRef deferred s))) =
     copierOptions (trace s) @ CopyOptions (opts s) # copierOptions deferred"
  by (simp add: runCopier_def split: prod.splits sum.splits)

lemma runCopier_last:
  "deferred \<noteq> [] \<Longrightarrow>
     last (trace (snd (runCopier E srcRef destRef deferred s))) = last deferred"
  by (simp add: runCopier_def split: prod.splits sum.splits)

lemma runCopier_error:
  "runCopier E srcRef destRef deferred s = ((b, Some err), s') \<Longrightarrow> \<exists>m. err = External m"
  by (auto simp: runCopier_def split: prod.splits sum.splits)

text \<open>The paths of \<open>pushImage\<close>, one lemma each.\<close>

lemma pushImage_StorageReference_fails:
  "StorageReference E img (world s) = (Inl err, w) \<Longrightarrow>
     pushImage E destination img s =
       ((None, Some (External err)),
        s\<lparr>trace := trace s @ [Call_pushImage destination], world := w\<rparr>)"
  by (simp add: pushImage_def Let_def)

lemma pushImage_unresolved:
  "StorageReference E img (world s) = (Inr srcRef, w) \<Longrightarrow>
   parseDestination E destination = Inl err \<Longrightarrow>
     pushImage E destination img s =
       ((None, Some (External err)),
        s\<lparr>trace := trace s @ [Call_pushImage destination], world := w\<rparr>)"
  by (simp add: pushImage_def Let_def)

lemma pushImage_rejected:
  "StorageReference E img (world s) = (Inr srcRef, w) \<Longrightarrow>
   parseDestination E destination = Inr destRef \<Longrightarrow>
   Transport_Name destRef \<noteq> dockerTransport_Name \<Longrightarrow> AllTags (opts s) \<Longrightarrow>
     pushImage E destination img s =
       ((None, Some (Errorf ''--all-tags can only be used with docker transport'')),
        s\<lparr>trace := trace s @ [Call_pushImage destination], world := w\<rparr>)"
  by (simp add: pushImage_def Let_def)

lemma pushImage_copies:
  "StorageReference E img (world s) = (Inr srcRef, w) \<Longrightarrow>
   parseDestination E destination = Inr destRef \<Longrightarrow>
   \<not> (Transport_Name destRef \<noteq> dockerTransport_Name \<and> AllTags (opts s)) \<Longrightarrow>
     pushImage E destination img s =
       runCopier E srcRef destRef (deferredEvent E destination img w)
         (s\<lparr>trace := trace s @ [Call_pushImage destination], world := w,
            opts := archiveTag E destination destRef (opts s)\<rparr>)"
  by (auto simp: pushImage_def Let_def)

lemma pushImage_cases:
  obtains (storage) err w where "StorageReference E img (world s) = (Inl err, w)"
  | (unresolved) srcRef w err where "StorageReference E img (world s) = (Inr srcRef, w)"
      "parseDestination E destination = Inl err"
  | (rejected) srcRef w destRef where "StorageReference E img (world s) = (Inr srcRef, w)"
      "parseDestination E destination = Inr destRef"
      "Transport_Name destRef \<noteq> dockerTransport_Name" "AllTags (opts s)"
  | (copies) srcRef w destRef where "StorageReference E img (world s) = (Inr srcRef, w)"
      "parseDestination E destination = Inr destRef"
      "\<not> (Transport_Name destRef \<noteq> dockerTransport_Name \<and> AllTags (opts s))"
proof (cases "StorageReference E img (world s)")
  case (Pair r w)
  show ?thesis
  proof (cases r)
    case (Inl err)
    with Pair storage show ?thesis by simp
  next
    case (Inr srcRef)
    show ?thesis
    proof (cases "parseDestination E destination")
      case (Inl err)
      with Pair Inr unresolved show ?thesis by simp
    next
      case r: (Inr destRef)
      with Pair Inr rejected copies show ?thesis by blast
    qed
  qed
qed

lemma pushImage_pushed:
  "pushedDestinations (trace (snd (pushImage E destination img s))) =
     pushedDestinations (trace s) @ [destination]"
  by (rule pushImage_cases [where E = E and img = img and s = s and destination = destination])
     (simp_all add: pushImage_StorageReference_fails pushImage_unresolved
        pushImage_rejected pushImage_copies)

subsection \<open>The paths of Push\<close>

lemma ContainsAny_colon [simp]: "ContainsAny s '':'' = (CHR '':'' \<in> set s)"
  by (simp add: ContainsAny_def list_ex_iff)

lemma TrimPrefix_Nil [simp]: "TrimPrefix [] p = []"
  by (simp add: TrimPrefix_def)

lemma Push_lookup_fails:
  "LookupImage E source w0 = (Inl err, w) \<Longrightarrow>
     Push E source destination0 options0 w0 =
       ((None, Some (External err)),
        \<lparr>opts = (case options0 of None \<Rightarrow> PushOptions_zero | Some p \<Rightarrow> p),
         world = w, trace = []\<rparr>)"
  by (simp add: Push_def)

lemma Push_single:
  "LookupImage E source w0 = (Inr (img, resolvedSource), w) \<Longrightarrow>
   \<not> AllTags (case options0 of None \<Rightarrow> PushOptions_zero | Some p \<Rightarrow> p) \<Longrightarrow>
     Push E source destination0 options0 w0 =
       pushImage E (if destination0 = [] then resolvedSource else destination0) img
         \<lparr>opts = (case options0 of None \<Rightarrow> PushOptions_zero | Some p \<Rightarrow> p),
          world = w, trace = []\<rparr>"
  by (simp add: Push_def Let_def)

lemma Push_conflict:
  "LookupImage E source w0 = (Inr (img, resolvedSource), w) \<Longrightarrow> AllTags p \<Longrightarrow>
   CHR '':'' \<in> set (TrimPrefix (if destination0 = [] then resolvedSource else destination0)
      ''docker://'') \<Longrightarrow>
     Push E source destination0 (Some p) w0 =
       ((None, Some (Errorf ''tag can't be used with --all-tags/-a'')),
        \<lparr>opts = p, world = w, trace = []\<rparr>)"
  by (simp add: Push_def Let_def)

lemma Push_tags_fail:
  "LookupImage E source w0 = (Inr (img, resolvedSource), w) \<Longrightarrow> AllTags p \<Longrightarrow>
   CHR '':'' \<notin> set (TrimPrefix (if destination0 = [] then resolvedSource else destination0)
      ''docker://'') \<Longrightarrow>
   NamedTaggedRepoTags E img w = (Inl err, w') \<Longrightarrow>
     Push E source destination0 (Some p) w0 =
       ((None, Some (External err)), \<lparr>opts = p, world = w', trace = []\<rparr>)"
  by (simp add: Push_def Let_def)

lemma Push_loop:
  "LookupImage E source w0 = (Inr (img, resolvedSource), w) \<Longrightarrow> AllTags p \<Longrightarrow>
   CHR '':'' \<notin> set (TrimPrefix (if destination0 = [] then resolvedSource else destination0)
      ''docker://'') \<Longrightarrow>
   NamedTaggedRepoTags E img w = (Inr tags, w') \<Longrightarrow>
     Push E source destination0 (Some p) w0 =
       pushTags E (if destination0 = [] then resolvedSource else destination0) img tags
         \<lparr>opts = p, world = w', trace = []\<rparr>"
  by (simp add: Push_def Let_def)

lemma pushTags_bytes: "fst (fst (pushTags E destination img tags s)) = None"
  by (induction tags arbitrary: s) (auto split: prod.splits option.splits)

lemma Push_all_tags_bytes:
  "AllTags p \<Longrightarrow> fst (fst (Push E source destination0 (Some p) w0)) = None"
  by (simp add: Push_def Let_def pushTags_bytes split: prod.splits sum.splits)

subsection \<open>The loop over the tags\<close>

lemma pushTags_fails_first:
  "pushImage E (destination @ '':'' @ Tag tag) img s = ((b, Some err), s') \<Longrightarrow>
     pushTags E destination img (tag # tags) s = ((None, Some err), s')"
  by simp

lemma pushTags_goes_on:
  "pushImage E (destination @ '':'' @ Tag tag) img s = ((b, None), s1) \<Longrightarrow>
     pushTags E destination img (tag # tags) s = pushTags E destination img tags s1"
  by simp

text \<open>A run of the loop as the list of the states between the pushes: what the loop
  returns gives such a run, and such a run gives what the loop returns.\<close>

lemma pushTags_run:
  assumes "pushTags E destination img tags s = (res, s')"
  shows "\<exists>k ss. k \<le> length tags \<and> length ss = Suc k \<and> ss ! 0 = s \<and> ss ! k = s'
         \<and> (\<forall>j<k. \<exists>b. pushImage E (destination @ '':'' @ Tag (tags ! j)) img (ss ! j) =
                ((b, if Suc j = k then snd res else None), ss ! Suc j))
         \<and> (snd res = None \<longrightarrow> k = length tags)
         \<and> (snd res \<noteq> None \<longrightarrow> 0 < k)
         \<and> fst res = None
         \<and> pushedDestinations (trace s') =
             pushedDestinations (trace s) @
               map (\<lambda>tag. destination @ '':'' @ Tag tag) (take k tags)"
  using assms
proof (induction tags arbitrary: s)
  case Nil
  then have "res = (None, None)" and "s' = s" by simp_all
  then show ?case
    by (intro exI [of _ 0] exI [of _ "[s]"]) simp
next
  case (Cons tag tags)
  obtain b e s1 where first: "pushImage E (destination @ '':'' @ Tag tag) img s = ((b, e), s1)"
    by (metis prod.collapse)
  have pushed: "pushedDestinations (trace s1) =
      pushedDestinations (trace s) @ [destination @ '':'' @ Tag tag]"
    using pushImage_pushed [of E "destination @ '':'' @ Tag tag" img s] first by simp
  show ?case
  proof (cases e)
    case (Some err)
    with first Cons.prems have "res = (None, Some err)" and "s' = s1"
      by simp_all
    have step: "\<forall>j<Suc 0. \<exists>b. pushImage E (destination @ '':'' @ Tag ((tag # tags) ! j)) img
          ([s, s1] ! j) =
        ((b, if Suc j = Suc 0 then snd res else None), [s, s1] ! Suc j)"
      using first Some \<open>res = (None, Some err)\<close> by simp
    have tr1: "pushedDestinations (trace s') =
        pushedDestinations (trace s) @
          map (\<lambda>tag. destination @ '':'' @ Tag tag) (take (Suc 0) (tag # tags))"
      using pushed \<open>s' = s1\<close> by simp
    have "Suc 0 \<le> length (tag # tags) \<and> length [s, s1] = Suc (Suc 0) \<and> [s, s1] ! 0 = s
        \<and> [s, s1] ! Suc 0 = s' \<and> (snd res = None \<longrightarrow> Suc 0 = length (tag # tags))
        \<and> (snd res \<noteq> None \<longrightarrow> 0 < Suc 0) \<and> fst res = None"
      using \<open>res = (None, Some err)\<close> \<open>s' = s1\<close> by simp
    with step tr1 show ?thesis
      by (intro exI [of _ "Suc 0"] exI [of _ "[s, s1]"]) blast
  next
    case None
    with first Cons.prems have rest: "pushTags E destination img tags s1 = (res, s')"
      by simp
    from Cons.IH [OF rest] obtain k ss where IH:
      "k \<le> length tags \<and> length ss = Suc k \<and> ss ! 0 = s1 \<and> ss ! k = s'
       \<and> (\<forall>j<k. \<exists>b. pushImage E (destination @ '':'' @ Tag (tags ! j)) img (ss ! j) =
              ((b, if Suc j = k then snd res else None), ss ! Suc j))
       \<and> (snd res = None \<longrightarrow> k = length tags)
       \<and> (snd res \<noteq> None \<longrightarrow> 0 < k)
       \<and> fst res = None
       \<and> pushedDestinations (trace s') =
           pushedDestinations (trace s1) @
             map (\<lambda>tag. destination @ '':'' @ Tag tag) (take k tags)"
      by (elim exE) (erule that)
    note k = IH [THEN conjunct1]
      and len = IH [THEN conjunct2, THEN conjunct1]
      and start = IH [THEN conjunct2, THEN conjunct2, THEN conjunct1]
      and stop = IH [THEN conjunct2, THEN conjunct2, THEN conjunct2, THEN conjunct1]
      and steps = IH [THEN conjunct2, THEN conjunct2, THEN conjunct2, THEN conjunct2,
        THEN conjunct1]
      and ok = IH [THEN conjunct2, THEN conjunct2, THEN conjunct2, THEN conjunct2,
        THEN conjunct2, THEN conjunct1]
      and failed = IH [THEN conjunct2, THEN conjunct2, THEN conjunct2, THEN conjunct2,
        THEN conjunct2, THEN conjunct2, THEN conjunct1]
      and bytes = IH [THEN conjunct2, THEN conjunct2, THEN conjunct2, THEN conjunct2,
        THEN conjunct2, THEN conjunct2, THEN conjunct2, THEN conjunct1]
      and tr = IH [THEN conjunct2, THEN conjunct2, THEN conjunct2, THEN conjunct2,
        THEN conjunct2, THEN conjunct2, THEN conjunct2, THEN conjunct2]
    have "\<exists>b. pushImage E (destination @ '':'' @ Tag ((tag # tags) ! j)) img ((s # ss) ! j) =
        ((b, if Suc j = Suc k then snd res else None), (s # ss) ! Suc j)"
      if "j < Suc k" for j
    proof (cases j)
      case 0
      have "(if Suc 0 = Suc k then snd res else None) = None"
        using failed by auto
      with 0 first None start show ?thesis by auto
    next
      case (Suc i)
      with that have "i < k" by simp
      with steps Suc show ?thesis by simp
    qed
    then have steps': "\<forall>j<Suc k. \<exists>b.
        pushImage E (destination @ '':'' @ Tag ((tag # tags) ! j)) img ((s # ss) ! j) =
          ((b, if Suc j = Suc k then snd res else None), (s # ss) ! Suc j)"
      by blast
    have tr': "pushedDestinations (trace s') =
        pushedDestinations (trace s) @
          map (\<lambda>tag. destination @ '':'' @ Tag tag) (take (Suc k) (tag # tags))"
      using tr pushed by simp
    have "Suc k \<le> length (tag # tags) \<and> length (s # ss) = Suc (Suc k) \<and> (s # ss) ! 0 = s
        \<and> (s # ss) ! Suc k = s' \<and> (snd res = None \<longrightarrow> Suc k = length (tag # tags))
        \<and> (snd res \<noteq> None \<longrightarrow> 0 < Suc k) \<and> fst res = None"
      using k len stop ok bytes by simp
    with steps' tr' show ?thesis
      by (intro exI [of _ "Suc k"] exI [of _ "s # ss"]) blast
  qed
qed

lemma pushTags_stops:
  assumes "j < length tags" and "length ss = Suc (Suc j)" and "ss ! 0 = s"
    and "\<forall>i<j. \<exists>b. pushImage E (destination @ '':'' @ Tag (tags ! i)) img (ss ! i) =
           ((b, None), ss ! Suc i)"
    and "pushImage E (destination @ '':'' @ Tag (tags ! j)) img (ss ! j) =
           ((b, Some err), ss ! Suc j)"
  shows "pushTags E destination img tags s = ((None, Some err), ss ! Suc j)"
  using assms
proof (induction tags arbitrary: j ss s)
  case Nil
  then show ?case by simp
next
  case (Cons tag tags)
  show ?case
  proof (cases j)
    case 0
    with Cons.prems(3,5) have "pushImage E (destination @ '':'' @ Tag tag) img s =
        ((b, Some err), ss ! Suc 0)"
      by simp
    with 0 show ?thesis by simp
  next
    case (Suc i)
    from Cons.prems(2) obtain s0 rest where ss: "ss = s0 # rest"
      by (cases ss) auto
    with Cons.prems(3) have s0: "s0 = s" by simp
    from Cons.prems(4) Suc have "\<exists>b. pushImage E (destination @ '':'' @ Tag ((tag # tags) ! 0))
        img (ss ! 0) = ((b, None), ss ! Suc 0)"
      by blast
    with ss s0 obtain b0 where first: "pushImage E (destination @ '':'' @ Tag tag) img s =
        ((b0, None), rest ! 0)"
      by auto
    have later: "\<forall>l<i. \<exists>b. pushImage E (destination @ '':'' @ Tag (tags ! l)) img (rest ! l) =
        ((b, None), rest ! Suc l)"
    proof (intro allI impI)
      fix l assume "l < i"
      with Suc have "Suc l < j" by simp
      with Cons.prems(4) have "\<exists>b. pushImage E (destination @ '':'' @ Tag ((tag # tags) ! Suc l))
          img (ss ! Suc l) = ((b, None), ss ! Suc (Suc l))"
        by blast
      with ss show "\<exists>b. pushImage E (destination @ '':'' @ Tag (tags ! l)) img (rest ! l) =
          ((b, None), rest ! Suc l)"
        by simp
    qed
    have last: "pushImage E (destination @ '':'' @ Tag (tags ! i)) img (rest ! i) =
        ((b, Some err), rest ! Suc i)"
      using Cons.prems(5) Suc ss by simp
    have "pushTags E destination img tags (rest ! 0) = ((None, Some err), rest ! Suc i)"
      using Cons.prems(1,2) Suc ss later last
      by (intro Cons.IH [of i rest]) simp_all
    with first Suc ss show ?thesis by simp
  qed
qed

lemma pushTags_completes:
  assumes "length ss = Suc (length tags)" and "ss ! 0 = s"
    and "\<forall>i<length tags. \<exists>b. pushImage E (destination @ '':'' @ Tag (tags ! i)) img (ss ! i) =
           ((b, None), ss ! Suc i)"
  shows "pushTags E destination img tags s = ((None, None), ss ! length tags)"
  using assms
proof (induction tags arbitrary: ss s)
  case Nil
  then show ?case by simp
next
  case (Cons tag tags)
  from Cons.prems(1) obtain s0 rest where ss: "ss = s0 # rest"
    by (cases ss) auto
  with Cons.prems(2) have s0: "s0 = s" by simp
  from Cons.prems(3) have "\<exists>b. pushImage E (destination @ '':'' @ Tag ((tag # tags) ! 0))
      img (ss ! 0) = ((b, None), ss ! Suc 0)"
    by (simp del: nth_Cons_0)
  with ss s0 obtain b0 where first: "pushImage E (destination @ '':'' @ Tag tag) img s =
      ((b0, None), rest ! 0)"
    by auto
  have later: "\<forall>l<length tags. \<exists>b. pushImage E (destination @ '':'' @ Tag (tags ! l)) img
      (rest ! l) = ((b, None), rest ! Suc l)"
  proof (intro allI impI)
    fix l assume "l < length tags"
    then have "Suc l < length (tag # tags)" by simp
    with Cons.prems(3) have "\<exists>b. pushImage E (destination @ '':'' @ Tag ((tag # tags) ! Suc l))
        img (ss ! Suc l) = ((b, None), ss ! Suc (Suc l))"
      by blast
    with ss show "\<exists>b. pushImage E (destination @ '':'' @ Tag (tags ! l)) img (rest ! l) =
        ((b, None), rest ! Suc l)"
      by simp
  qed
  have "pushTags E destination img tags (rest ! 0) = ((None, None), rest ! length tags)"
    using Cons.prems(1) ss later by (intro Cons.IH [of rest]) simp_all
  with first ss show ?case by simp
qed

lemma pushImage_chain_pushed:
  assumes "\<forall>i<m. \<exists>b e. pushImage E (destination @ '':'' @ Tag (tags ! i)) img (ss ! i) =
             ((b, e), ss ! Suc i)"
    and "m \<le> length tags"
  shows "pushedDestinations (trace (ss ! m)) =
           pushedDestinations (trace (ss ! 0)) @
             map (\<lambda>tag. destination @ '':'' @ Tag tag) (take m tags)"
  using assms
proof (induction m)
  case 0
  then show ?case by simp
next
  case (Suc m)
  then have before: "pushedDestinations (trace (ss ! m)) =
      pushedDestinations (trace (ss ! 0)) @
        map (\<lambda>tag. destination @ '':'' @ Tag tag) (take m tags)"
    by simp
  from Suc.prems obtain b e where
    step: "pushImage E (destination @ '':'' @ Tag (tags ! m)) img (ss ! m) = ((b, e), ss ! Suc m)"
    by blast
  have "pushedDestinations (trace (ss ! Suc m)) =
      pushedDestinations (trace (ss ! m)) @ [destination @ '':'' @ Tag (tags ! m)]"
    using pushImage_pushed [of E "destination @ '':'' @ Tag (tags ! m)" img "ss ! m"] step
    by simp
  moreover from Suc.prems have "take (Suc m) tags = take m tags @ [tags ! m]"
    by (simp add: take_Suc_conv_app_nth)
  ultimately show ?case
    using before by simp
qed

subsection \<open>Where the errors of this file come from\<close>

lemma colon_survives_TrimPrefix:
  assumes "scheme \<noteq> ''docker''"
  shows "CHR '':'' \<in> set (TrimPrefix (scheme @ '':'' @ rest) ''docker://'')"
proof (cases "prefix ''docker://'' (scheme @ '':'' @ rest)")
  case False
  then show ?thesis by (simp add: TrimPrefix_def)
next
  case True
  then consider (inside) "prefix ''docker://'' scheme"
    | (across) us where "''docker://'' = scheme @ us" "prefix us ('':'' @ rest)"
    unfolding prefix_append by blast
  then show ?thesis
  proof cases
    case inside
    then obtain r where "scheme = ''docker://'' @ r"
      by (auto simp: prefix_def)
    then show ?thesis by (simp add: TrimPrefix_def)
  next
    case across
    show ?thesis
    proof (cases us)
      case Nil
      with across have "scheme = ''docker://''" by simp
      then show ?thesis by (simp add: TrimPrefix_def)
    next
      case (Cons u us')
      with across have "u = CHR '':''" by simp
      with across Cons have "''docker://'' = scheme @ CHR '':'' # us'" by simp
      then have "scheme = ''docker''"
        by (auto simp: Cons_eq_append_conv)
      with assms show ?thesis by simp
    qed
  qed
qed

lemma pushImage_Errorf:
  assumes "pushImage E destination img s = ((b, Some (Errorf m)), s')"
  shows "AllTags (opts s) \<and> (\<exists>r. parseDestination E destination = Inr r
           \<and> Transport_Name r \<noteq> dockerTransport_Name)"
proof (rule pushImage_cases [where E = E and img = img and s = s and destination = destination])
  fix err w assume "StorageReference E img (world s) = (Inl err, w)"
  with assms show ?thesis by (simp add: pushImage_StorageReference_fails)
next
  fix srcRef w err assume "StorageReference E img (world s) = (Inr srcRef, w)"
    "parseDestination E destination = Inl err"
  with assms show ?thesis by (simp add: pushImage_unresolved)
next
  fix srcRef w destRef assume "StorageReference E img (world s) = (Inr srcRef, w)"
    "parseDestination E destination = Inr destRef"
    "Transport_Name destRef \<noteq> dockerTransport_Name" "AllTags (opts s)"
  then show ?thesis by simp
next
  fix srcRef w destRef assume "StorageReference E img (world s) = (Inr srcRef, w)"
    "parseDestination E destination = Inr destRef"
    "\<not> (Transport_Name destRef \<noteq> dockerTransport_Name \<and> AllTags (opts s))"
  then have "pushImage E destination img s =
      runCopier E srcRef destRef (deferredEvent E destination img w)
        (s\<lparr>trace := trace s @ [Call_pushImage destination], world := w,
           opts := archiveTag E destination destRef (opts s)\<rparr>)"
    by (rule pushImage_copies)
  with assms runCopier_error [of E srcRef destRef] show ?thesis
    by (metis error.distinct(1))
qed

lemma pushTags_Errorf:
  "pushTags E destination img tags s = ((b, Some (Errorf m)), s') \<Longrightarrow>
     \<exists>tag\<in>set tags. \<exists>r. parseDestination E (destination @ '':'' @ Tag tag) = Inr r
        \<and> Transport_Name r \<noteq> dockerTransport_Name"
proof (induction tags arbitrary: s)
  case Nil
  then show ?case by simp
next
  case (Cons tag tags)
  obtain b1 e s1 where first: "pushImage E (destination @ '':'' @ Tag tag) img s = ((b1, e), s1)"
    by (metis prod.collapse)
  show ?case
  proof (cases e)
    case None
    with first Cons.prems have "pushTags E destination img tags s1 = ((b, Some (Errorf m)), s')"
      by simp
    from Cons.IH [OF this] show ?thesis by auto
  next
    case (Some err)
    with first Cons.prems have "err = Errorf m" by simp
    with first Some pushImage_Errorf [of E "destination @ '':'' @ Tag tag" img s b1 m s1]
    show ?thesis by auto
  qed
qed

subsection \<open>The options and what the copier is given\<close>

lemma archiveTag_frame:
  "archiveTag E destination destRef p =
     p\<lparr>CopyOptions := (CopyOptions p)\<lparr>dockerArchiveAdditionalTags :=
        dockerArchiveAdditionalTags (CopyOptions (archiveTag E destination destRef p))\<rparr>\<rparr>"
  by (simp add: archiveTag_def split: sum.splits Named.splits)

lemma archiveTag_tags:
  "dockerArchiveAdditionalTags (CopyOptions (archiveTag E destination destRef p)) =
     (if Transport_Name destRef = dockerArchiveTransport_Name then
        (case ParseNamed E destination of
           Inr (Tagged tagged) \<Rightarrow> [tagged]
         | Inr (Untagged n) \<Rightarrow> dockerArchiveAdditionalTags (CopyOptions p)
         | Inl err \<Rightarrow> dockerArchiveAdditionalTags (CopyOptions p))
      else dockerArchiveAdditionalTags (CopyOptions p))"
  by (simp add: archiveTag_def split: sum.splits Named.splits)

lemma pushImage_opts:
  "opts (snd (pushImage E destination img s)) = opts s
   \<or> (\<exists>destRef. parseDestination E destination = Inr destRef
        \<and> \<not> (Transport_Name destRef \<noteq> dockerTransport_Name \<and> AllTags (opts s))
        \<and> opts (snd (pushImage E destination img s)) =
            archiveTag E destination destRef (opts s))"
  by (rule pushImage_cases [where E = E and img = img and s = s and destination = destination])
     (simp_all add: pushImage_StorageReference_fails pushImage_unresolved
        pushImage_rejected pushImage_copies)

lemma pushImage_archive_copierOptions:
  assumes "StorageReference E img (world s) = (Inr srcRef, w)"
    and "parseDestination E destination = Inr destRef"
    and "\<not> (Transport_Name destRef \<noteq> dockerTransport_Name \<and> AllTags (opts s))"
  shows "copierOptions (trace (snd (pushImage E destination img s))) =
           copierOptions (trace s) @ [CopyOptions (archiveTag E destination destRef (opts s))]"
    and "opts (snd (pushImage E destination img s)) = archiveTag E destination destRef (opts s)"
  using assms by (simp_all add: pushImage_copies)

subsection \<open>The concrete collaborators, evaluated\<close>

lemma example_StorageReference:
  "StorageReference example_env img w =
     (Inr \<lparr>Transport_Name = ''containers-storage'', StringWithinTransport = img\<rparr>, Suc w)"
  by (simp add: example_env_def)

lemma example_parse_dir:
  "parseDestination example_env ''dir:/tmp/app'' =
     Inr \<lparr>Transport_Name = ''dir'', StringWithinTransport = ''/tmp/app''\<rparr>"
  by (simp add: parseDestination_def example_env_def example_ParseImageName_def
      example_transports_def)

lemma example_parse_quay_first:
  "ParseImageName example_env ''quay.io/app:v2'' = Inl ''unknown transport''"
  by (simp add: example_env_def example_ParseImageName_def example_transports_def)

lemma example_parse_quay_second:
  "ParseImageName example_env (''docker://'' @ ''quay.io/app:v2'') =
     Inr \<lparr>Transport_Name = ''docker'', StringWithinTransport = ''//quay.io/app:v2''\<rparr>"
  by (simp add: example_env_def example_ParseImageName_def example_transports_def)

lemma example_parse_quay:
  "parseDestination example_env ''quay.io/app:v2'' =
     Inr \<lparr>Transport_Name = ''docker'', StringWithinTransport = ''//quay.io/app:v2''\<rparr>"
  using example_parse_quay_first example_parse_quay_second
  by (simp add: parseDestination_def)

lemma example_parse_space_first:
  "ParseImageName example_env ''my app'' = Inl ''expected colon-separated transport:reference''"
  by (simp add: example_env_def example_ParseImageName_def)

lemma example_parse_space_second:
  "ParseImageName example_env (''docker://'' @ ''my app'') = Inl ''invalid reference format''"
  by (simp add: example_env_def example_ParseImageName_def example_transports_def)

lemma example_all_tags_opts:
  "AllTags (opts (example_state example_all_tags))"
  by (simp add: example_state_def example_all_tags_def)

lemma example_zero_opts:
  "\<not> AllTags (opts (example_state PushOptions_zero))"
  by (simp add: example_state_def PushOptions_zero_def)

lemma example_world: "world (example_state p) = 0"
  by (simp add: example_state_def)

lemma example_parse_dir_first:
  "ParseImageName example_env ''dir:/tmp/app'' =
     Inr \<lparr>Transport_Name = ''dir'', StringWithinTransport = ''/tmp/app''\<rparr>"
  by (simp add: example_env_def example_ParseImageName_def example_transports_def)

lemma example_eventChannel: "eventChannel example_env"
  by (simp add: example_env_def)

lemma example_missing_auth_opts:
  "\<not> AllTags (opts (example_state example_missing_auth))"
  by (simp add: example_state_def example_missing_auth_def)

lemma example_parse_v1:
  "parseDestination example_env ''quay.io/app:v1'' =
     Inr \<lparr>Transport_Name = ''docker'', StringWithinTransport = ''//quay.io/app:v1''\<rparr>"
  by (simp add: parseDestination_def example_env_def example_ParseImageName_def
      example_transports_def)

lemmas example_defs =
  parseDestination_def runCopier_def deferredEvent_def archiveTag_def
  example_env_def example_ParseImageName_def example_transports_def example_ParseNamed_def
  example_state_def PushOptions_zero_def example_all_tags_def example_missing_auth_def
  example_tags_def dockerTransport_Name_def dockerArchiveTransport_Name_def

lemma example_run_v1:
  "pushImage example_env ''quay.io/app:v1'' ''a1b2'' (example_state PushOptions_zero) =
     ((Some [1, 2, 3], None),
      \<lparr>opts = PushOptions_zero, world = 4,
       trace =
         [Call_pushImage ''quay.io/app:v1'',
          Call_newCopier \<lparr>otherFields = [], dockerArchiveAdditionalTags = []\<rparr>,
          Call_copy 1
            \<lparr>Transport_Name = ''containers-storage'', StringWithinTransport = ''a1b2''\<rparr>
            \<lparr>Transport_Name = ''docker'', StringWithinTransport = ''//quay.io/app:v1''\<rparr>,
          Call_close 1,
          Call_writeEvent
            \<lparr>ID = ''a1b2'', Name = ''quay.io/app:v1'', Time = 1, Type = EventTypeImagePush\<rparr>]\<rparr>)"
  by (simp add: pushImage_def Let_def example_defs)

lemma example_run_v2:
  "pushImage example_env ''quay.io/app:v2'' ''a1b2'' (example_state PushOptions_zero) =
     ((None, Some (External ''connection refused'')),
      \<lparr>opts = PushOptions_zero, world = 4,
       trace =
         [Call_pushImage ''quay.io/app:v2'',
          Call_newCopier \<lparr>otherFields = [], dockerArchiveAdditionalTags = []\<rparr>,
          Call_copy 1
            \<lparr>Transport_Name = ''containers-storage'', StringWithinTransport = ''a1b2''\<rparr>
            \<lparr>Transport_Name = ''docker'', StringWithinTransport = ''//quay.io/app:v2''\<rparr>,
          Call_close 1,
          Call_writeEvent
            \<lparr>ID = ''a1b2'', Name = ''quay.io/app:v2'', Time = 1, Type = EventTypeImagePush\<rparr>]\<rparr>)"
  by (simp add: pushImage_def Let_def example_defs)

lemma example_run_missing_auth:
  "pushImage example_env ''quay.io/app:v1'' ''a1b2'' (example_state example_missing_auth) =
     ((None, Some (External ''no such file'')),
      \<lparr>opts = example_missing_auth, world = 2,
       trace =
         [Call_pushImage ''quay.io/app:v1'',
          Call_newCopier \<lparr>otherFields = [(''AuthFilePath'', ''/missing'')],
                          dockerArchiveAdditionalTags = []\<rparr>,
          Call_writeEvent
            \<lparr>ID = ''a1b2'', Name = ''quay.io/app:v1'', Time = 1, Type = EventTypeImagePush\<rparr>]\<rparr>)"
  by (simp add: pushImage_def Let_def example_defs)

lemma example_run_dir_all_tags:
  "pushImage example_env ''dir:/tmp/app'' ''a1b2'' (example_state example_all_tags) =
     ((None, Some (Errorf ''--all-tags can only be used with docker transport'')),
      \<lparr>opts = example_all_tags, world = 1, trace = [Call_pushImage ''dir:/tmp/app'']\<rparr>)"
  by (simp add: pushImage_def Let_def example_defs)

lemma example_Image_ID: "Image_ID example_env img = img"
  by (simp add: example_env_def)

lemma example_time_Now: "time_Now example_env w = w"
  by (simp add: example_env_def)

lemma example_trace: "trace (example_state p) = []"
  by (simp add: example_state_def)

lemma example_opts: "opts (example_state p) = p"
  by (simp add: example_state_def)

lemma example_lookup_app:
  "LookupImage example_env ''app'' w = (Inr (''a1b2'', ''localhost/app''), Suc w)"
  by (simp add: example_env_def)

lemma example_lookup_base:
  "LookupImage example_env ''base'' w = (Inr (''c3d4'', ''localhost/base''), Suc w)"
  by (simp add: example_env_def)

lemma example_tags_app:
  "NamedTaggedRepoTags example_env ''a1b2'' w = (Inr example_tags, Suc w)"
  by (simp add: example_env_def)

lemma example_tags_base:
  "NamedTaggedRepoTags example_env ''c3d4'' w = (Inr [], Suc w)"
  by (simp add: example_env_def)

lemma example_all_tags_set: "AllTags example_all_tags"
  by (simp add: example_all_tags_def)

lemma example_push_ghcr:
  "fst (Push example_env ''app'' ''ghcr.io/app'' (Some example_all_tags) 0) = (None, None)
   \<and> pushedDestinations (trace (snd (Push example_env ''app'' ''ghcr.io/app''
         (Some example_all_tags) 0))) =
       [''ghcr.io/app:v1'', ''ghcr.io/app:v2'', ''ghcr.io/app:v3'']"
  by (simp add: Push_def Let_def TrimPrefix_def pushImage_def example_defs)

lemma example_push_quay:
  "fst (Push example_env ''app'' ''quay.io/app'' (Some example_all_tags) 0) =
     (None, Some (External ''connection refused''))
   \<and> pushedDestinations (trace (snd (Push example_env ''app'' ''quay.io/app''
         (Some example_all_tags) 0))) =
       [''quay.io/app:v1'', ''quay.io/app:v2'']"
  by (simp add: Push_def Let_def TrimPrefix_def pushImage_def example_defs)

lemma example_push_default:
  "Push example_env ''app'' '''' None 0 =
     ((Some [1, 2, 3], None),
      \<lparr>opts = PushOptions_zero, world = 5,
       trace =
         [Call_pushImage ''localhost/app'',
          Call_newCopier \<lparr>otherFields = [], dockerArchiveAdditionalTags = []\<rparr>,
          Call_copy 2
            \<lparr>Transport_Name = ''containers-storage'', StringWithinTransport = ''a1b2''\<rparr>
            \<lparr>Transport_Name = ''docker'', StringWithinTransport = ''//localhost/app''\<rparr>,
          Call_close 2,
          Call_writeEvent
            \<lparr>ID = ''a1b2'', Name = ''localhost/app'', Time = 2, Type = EventTypeImagePush\<rparr>]\<rparr>)"
  by (simp add: Push_def Let_def pushImage_def example_defs)

lemma example_push_dir:
  "Push example_env ''app'' ''dir'' (Some example_all_tags) 0 =
     ((None, Some (Errorf ''--all-tags can only be used with docker transport'')),
      \<lparr>opts = example_all_tags, world = 3, trace = [Call_pushImage ''dir:v1'']\<rparr>)"
  by (simp add: Push_def Let_def TrimPrefix_def pushImage_def example_defs)

lemma example_parse_archive_tagged:
  "parseDestination example_env ''docker-archive:5000/app:v1'' =
     Inr \<lparr>Transport_Name = ''docker-archive'', StringWithinTransport = ''5000/app:v1''\<rparr>"
  by (simp add: parseDestination_def example_env_def example_ParseImageName_def
      example_transports_def)

lemma example_parse_archive_untagged:
  "parseDestination example_env ''docker-archive:5000/app'' =
     Inr \<lparr>Transport_Name = ''docker-archive'', StringWithinTransport = ''5000/app''\<rparr>"
  by (simp add: parseDestination_def example_env_def example_ParseImageName_def
      example_transports_def)

lemma example_parse_archive_file:
  "parseDestination example_env ''docker-archive:/tmp/app.tar'' =
     Inr \<lparr>Transport_Name = ''docker-archive'', StringWithinTransport = ''/tmp/app.tar''\<rparr>"
  by (simp add: parseDestination_def example_env_def example_ParseImageName_def
      example_transports_def)

lemma example_named_tagged:
  "ParseNamed example_env ''docker-archive:5000/app:v1'' =
     Inr (Tagged \<lparr>Repository = ''docker-archive:5000/app'', Tag = ''v1''\<rparr>)"
  by (simp add: example_env_def example_ParseNamed_def)

lemma example_named_untagged:
  "ParseNamed example_env ''docker-archive:5000/app'' = Inr (Untagged ''docker-archive:5000/app'')"
  by (simp add: example_env_def example_ParseNamed_def)

lemma example_named_file:
  "ParseNamed example_env ''docker-archive:/tmp/app.tar'' = Inl ''invalid reference format''"
  by (simp add: example_env_def example_ParseNamed_def)

lemma example_archive: "Transport_Name \<lparr>Transport_Name = ''docker-archive'',
    StringWithinTransport = x\<rparr> = dockerArchiveTransport_Name"
  by (simp add: dockerArchiveTransport_Name_def)

lemma example_run_archive_tagged:
  "pushImage example_env ''docker-archive:5000/app:v1'' ''a1b2'' (example_state PushOptions_zero) =
     ((Some [1, 2, 3], None),
      \<lparr>opts = \<lparr>CopyOptions = \<lparr>otherFields = [], dockerArchiveAdditionalTags =
                  [\<lparr>Repository = ''docker-archive:5000/app'', Tag = ''v1''\<rparr>]\<rparr>,
               AllTags = False\<rparr>,
       world = 4,
       trace =
         [Call_pushImage ''docker-archive:5000/app:v1'',
          Call_newCopier \<lparr>otherFields = [], dockerArchiveAdditionalTags =
            [\<lparr>Repository = ''docker-archive:5000/app'', Tag = ''v1''\<rparr>]\<rparr>,
          Call_copy 1
            \<lparr>Transport_Name = ''containers-storage'', StringWithinTransport = ''a1b2''\<rparr>
            \<lparr>Transport_Name = ''docker-archive'', StringWithinTransport = ''5000/app:v1''\<rparr>,
          Call_close 1,
          Call_writeEvent
            \<lparr>ID = ''a1b2'', Name = ''docker-archive:5000/app:v1'', Time = 1,
              Type = EventTypeImagePush\<rparr>]\<rparr>)"
  by (simp add: pushImage_def Let_def example_defs)

lemma example_run_archive_file_after:
  "copierOptions (trace (snd (pushImage example_env ''docker-archive:/tmp/app.tar'' ''c3d4''
      (example_state (opts (snd (pushImage example_env ''docker-archive:5000/app:v1'' ''a1b2''
         (example_state PushOptions_zero)))))))) =
     [\<lparr>otherFields = [], dockerArchiveAdditionalTags =
        [\<lparr>Repository = ''docker-archive:5000/app'', Tag = ''v1''\<rparr>]\<rparr>]"
  unfolding example_run_archive_tagged
  by (simp add: pushImage_def Let_def example_defs)

lemma example_run_no_channel:
  "pushImage (example_env\<lparr>eventChannel := False\<rparr>) ''quay.io/app:v1'' ''a1b2''
      (example_state PushOptions_zero) =
     ((Some [1, 2, 3], None),
      \<lparr>opts = PushOptions_zero, world = 4,
       trace =
         [Call_pushImage ''quay.io/app:v1'',
          Call_newCopier \<lparr>otherFields = [], dockerArchiveAdditionalTags = []\<rparr>,
          Call_copy 1
            \<lparr>Transport_Name = ''containers-storage'', StringWithinTransport = ''a1b2''\<rparr>
            \<lparr>Transport_Name = ''docker'', StringWithinTransport = ''//quay.io/app:v1''\<rparr>,
          Call_close 1]\<rparr>)"
  by (simp add: pushImage_def Let_def example_defs)

subsection \<open>The push event\<close>

text \<open>
  C1, as the code has it. When the source reference is there, the destination has
  resolved, the call is not refused for asking all tags of a transport other than
  \<^verbatim>\<open>docker\<close>, and the runtime has an event channel, \<^verbatim>\<open>pushImage\<close> hands
  exactly one event to \<^verbatim>\<open>writeEvent\<close>, and that is the last call it makes before it
  returns, whether the copier could not be made, the copy failed or the copy succeeded.
  The event holds the identifier of the image, the destination string, the time read
  when the \<^verbatim>\<open>defer\<close> statement ran, and the type \<^verbatim>\<open>EventTypeImagePush\<close>.
\<close>

theorem pushImage_event_after_check:
  assumes "StorageReference E img (world s) = (Inr srcRef, w)"
    and "parseDestination E destination = Inr destRef"
    and "\<not> (Transport_Name destRef \<noteq> dockerTransport_Name \<and> AllTags (opts s))"
    and "eventChannel E"
  shows "writtenEvents (trace (snd (pushImage E destination img s))) =
           writtenEvents (trace s) @
             [\<lparr>ID = Image_ID E img, Name = destination, Time = time_Now E w,
               Type = EventTypeImagePush\<rparr>]
         \<and> last (trace (snd (pushImage E destination img s))) =
             Call_writeEvent \<lparr>ID = Image_ID E img, Name = destination, Time = time_Now E w,
                              Type = EventTypeImagePush\<rparr>"
proof -
  have run: "pushImage E destination img s =
      runCopier E srcRef destRef (deferredEvent E destination img w)
        (s\<lparr>trace := trace s @ [Call_pushImage destination], world := w,
           opts := archiveTag E destination destRef (opts s)\<rparr>)"
    using assms(1-3) by (rule pushImage_copies)
  have deferred: "deferredEvent E destination img w =
      [Call_writeEvent \<lparr>ID = Image_ID E img, Name = destination, Time = time_Now E w,
                        Type = EventTypeImagePush\<rparr>]"
    using assms(4) by (simp add: deferredEvent_def)
  show ?thesis
    unfolding run by (simp add: runCopier_last deferred)
qed

theorem pushImage_event_after_check_witness:
  "fst (pushImage example_env ''quay.io/app:v1'' ''a1b2'' (example_state PushOptions_zero)) =
     (Some [1, 2, 3], None)
   \<and> writtenEvents (trace (snd (pushImage example_env ''quay.io/app:v1'' ''a1b2''
        (example_state PushOptions_zero)))) =
       [\<lparr>ID = ''a1b2'', Name = ''quay.io/app:v1'', Time = 1, Type = EventTypeImagePush\<rparr>]
   \<and> fst (pushImage example_env ''quay.io/app:v2'' ''a1b2'' (example_state PushOptions_zero)) =
     (None, Some (External ''connection refused''))
   \<and> writtenEvents (trace (snd (pushImage example_env ''quay.io/app:v2'' ''a1b2''
        (example_state PushOptions_zero)))) =
       [\<lparr>ID = ''a1b2'', Name = ''quay.io/app:v2'', Time = 1, Type = EventTypeImagePush\<rparr>]
   \<and> fst (pushImage example_env ''quay.io/app:v1'' ''a1b2'' (example_state example_missing_auth)) =
     (None, Some (External ''no such file''))
   \<and> last (trace (snd (pushImage example_env ''quay.io/app:v1'' ''a1b2''
        (example_state example_missing_auth)))) =
       Call_writeEvent
         \<lparr>ID = ''a1b2'', Name = ''quay.io/app:v1'', Time = 1, Type = EventTypeImagePush\<rparr>"
proof -
  have docker: "\<not> (Transport_Name \<lparr>Transport_Name = ''docker'', StringWithinTransport = x\<rparr>
      \<noteq> dockerTransport_Name \<and> a)" for x a
    by (simp add: dockerTransport_Name_def)
  note success = pushImage_event_after_check
    [where s = "example_state PushOptions_zero" and img = "''a1b2''",
      OF example_StorageReference example_parse_v1 docker example_eventChannel]
  note copy_fails = pushImage_event_after_check
    [where s = "example_state PushOptions_zero" and img = "''a1b2''",
      OF example_StorageReference example_parse_quay docker example_eventChannel]
  note no_copier = pushImage_event_after_check
    [where s = "example_state example_missing_auth" and img = "''a1b2''",
      OF example_StorageReference example_parse_v1 docker example_eventChannel]
  show ?thesis
    using success copy_fails no_copier
    by (simp add: example_run_v1 example_run_v2 example_run_missing_auth
        example_Image_ID example_time_Now example_world example_trace)
qed

text \<open>
  The refusal of all tags on another transport returns before the event is deferred:
  with an event channel present and the destination \<^verbatim>\<open>dir:/tmp/app\<close> resolved, no
  event is written. And a runtime without an event channel writes no event, even when
  the push succeeds.
\<close>

theorem pushImage_event_counterexample:
  "parseDestination example_env ''dir:/tmp/app'' =
     Inr \<lparr>Transport_Name = ''dir'', StringWithinTransport = ''/tmp/app''\<rparr>
   \<and> eventChannel example_env
   \<and> fst (pushImage example_env ''dir:/tmp/app'' ''a1b2'' (example_state example_all_tags)) =
       (None, Some (Errorf ''--all-tags can only be used with docker transport''))
   \<and> writtenEvents (trace (snd (pushImage example_env ''dir:/tmp/app'' ''a1b2''
        (example_state example_all_tags)))) = []
   \<and> fst (pushImage (example_env\<lparr>eventChannel := False\<rparr>) ''quay.io/app:v1'' ''a1b2''
        (example_state PushOptions_zero)) = (Some [1, 2, 3], None)
   \<and> writtenEvents (trace (snd (pushImage (example_env\<lparr>eventChannel := False\<rparr>)
        ''quay.io/app:v1'' ''a1b2'' (example_state PushOptions_zero)))) = []"
  by (simp add: example_parse_dir example_eventChannel example_run_dir_all_tags
      example_run_no_channel)

subsection \<open>One push for each tag, in order, until the first failure\<close>

text \<open>
  C2. Take a call of \<^verbatim>\<open>Push\<close> with \<open>AllTags\<close> set that reaches the loop: the
  store finds the source, the destination has no tag, and the image has the named
  tagged repo tags \<open>tags\<close>. Three things hold.

  First, what \<^verbatim>\<open>Push\<close> returns comes from a run of \<open>k\<close> pushes: \<^verbatim>\<open>pushImage\<close> is
  called on the first \<open>k\<close> tags in their order, each call with the destination
  followed by a colon and the tag, each from the state that the call before it left.
  Every call but the last returns no error, and the last returns the very error, or
  absence of error, that \<^verbatim>\<open>Push\<close> returns. When \<^verbatim>\<open>Push\<close> returns no error all
  the tags were pushed. The bytes are \<^verbatim>\<open>nil\<close>, the final state is the one the last
  call left, and \<^verbatim>\<open>pushImage\<close> was entered for these \<open>k\<close> destinations and no other.

  Second, the loop stops at the first failure: when the pushes of the tags before
  tag \<open>j\<close> return no error and the push of tag \<open>j\<close> returns the error \<open>err\<close>, then
  \<^verbatim>\<open>Push\<close> returns \<open>err\<close>, its final state is the one this push left, and
  \<^verbatim>\<open>pushImage\<close> was entered for the tags up to \<open>j\<close> only, so that no later tag is
  pushed.

  Third, when the push of every tag returns no error, \<^verbatim>\<open>Push\<close> returns no error and
  \<^verbatim>\<open>pushImage\<close> was entered exactly once for each tag, in order.
\<close>

theorem Push_all_tags_in_order:
  assumes "AllTags p"
    and "LookupImage E source w0 = (Inr (img, resolvedSource), w1)"
    and "destination = (if destination0 = [] then resolvedSource else destination0)"
    and "\<not> ContainsAny (TrimPrefix destination ''docker://'') '':''"
    and "NamedTaggedRepoTags E img w1 = (Inr tags, w2)"
    and "Push E source destination0 (Some p) w0 = (res, s')"
  shows "(\<exists>k ss. k \<le> length tags \<and> length ss = Suc k
            \<and> ss ! 0 = \<lparr>opts = p, world = w2, trace = []\<rparr> \<and> ss ! k = s'
            \<and> (\<forall>j<k. \<exists>b. pushImage E (destination @ '':'' @ Tag (tags ! j)) img (ss ! j) =
                   ((b, if Suc j = k then snd res else None), ss ! Suc j))
            \<and> (snd res = None \<longrightarrow> k = length tags)
            \<and> (snd res \<noteq> None \<longrightarrow> 0 < k)
            \<and> fst res = None
            \<and> pushedDestinations (trace s') =
                map (\<lambda>tag. destination @ '':'' @ Tag tag) (take k tags))
       \<and> (j < length tags \<and> length fs = Suc (Suc j)
            \<and> fs ! 0 = \<lparr>opts = p, world = w2, trace = []\<rparr>
            \<and> (\<forall>i<j. \<exists>b. pushImage E (destination @ '':'' @ Tag (tags ! i)) img (fs ! i) =
                   ((b, None), fs ! Suc i))
            \<and> pushImage E (destination @ '':'' @ Tag (tags ! j)) img (fs ! j) =
                 ((b, Some err), fs ! Suc j) \<longrightarrow>
            res = (None, Some err) \<and> s' = fs ! Suc j
            \<and> pushedDestinations (trace s') =
                map (\<lambda>tag. destination @ '':'' @ Tag tag) (take (Suc j) tags))
       \<and> (length cs = Suc (length tags)
            \<and> cs ! 0 = \<lparr>opts = p, world = w2, trace = []\<rparr>
            \<and> (\<forall>i<length tags. \<exists>b. pushImage E (destination @ '':'' @ Tag (tags ! i)) img
                   (cs ! i) = ((b, None), cs ! Suc i)) \<longrightarrow>
            res = (None, None) \<and> s' = cs ! length tags
            \<and> pushedDestinations (trace s') =
                map (\<lambda>tag. destination @ '':'' @ Tag tag) tags)"
proof (intro conjI impI)
  have loop: "pushTags E destination img tags \<lparr>opts = p, world = w2, trace = []\<rparr> = (res, s')"
    using assms Push_loop [of E source w0 img resolvedSource w1 p destination0 tags w2]
    by simp
  from pushTags_run [OF loop]
  show "\<exists>k ss. k \<le> length tags \<and> length ss = Suc k
      \<and> ss ! 0 = \<lparr>opts = p, world = w2, trace = []\<rparr> \<and> ss ! k = s'
      \<and> (\<forall>j<k. \<exists>b. pushImage E (destination @ '':'' @ Tag (tags ! j)) img (ss ! j) =
             ((b, if Suc j = k then snd res else None), ss ! Suc j))
      \<and> (snd res = None \<longrightarrow> k = length tags)
      \<and> (snd res \<noteq> None \<longrightarrow> 0 < k)
      \<and> fst res = None
      \<and> pushedDestinations (trace s') =
          map (\<lambda>tag. destination @ '':'' @ Tag tag) (take k tags)"
    by simp
  {
    assume fails: "j < length tags \<and> length fs = Suc (Suc j)
      \<and> fs ! 0 = \<lparr>opts = p, world = w2, trace = []\<rparr>
      \<and> (\<forall>i<j. \<exists>b. pushImage E (destination @ '':'' @ Tag (tags ! i)) img (fs ! i) =
             ((b, None), fs ! Suc i))
      \<and> pushImage E (destination @ '':'' @ Tag (tags ! j)) img (fs ! j) =
           ((b, Some err), fs ! Suc j)"
    note j = fails [THEN conjunct1]
      and len = fails [THEN conjunct2, THEN conjunct1]
      and start = fails [THEN conjunct2, THEN conjunct2, THEN conjunct1]
      and before = fails [THEN conjunct2, THEN conjunct2, THEN conjunct2, THEN conjunct1]
      and last = fails [THEN conjunct2, THEN conjunct2, THEN conjunct2, THEN conjunct2]
    have "pushTags E destination img tags \<lparr>opts = p, world = w2, trace = []\<rparr> = ((None, Some err), fs ! Suc j)"
      using j len start before last by (rule pushTags_stops)
    with loop show stopped: "res = (None, Some err)" and state: "s' = fs ! Suc j"
      by simp_all
    have "\<exists>b e. pushImage E (destination @ '':'' @ Tag (tags ! i)) img (fs ! i) =
        ((b, e), fs ! Suc i)" if "i < Suc j" for i
    proof (cases "i = j")
      case True
      with last show ?thesis by blast
    next
      case False
      with that have "i < j" by simp
      with before show ?thesis by blast
    qed
    then have "\<forall>i<Suc j. \<exists>b e.
        pushImage E (destination @ '':'' @ Tag (tags ! i)) img (fs ! i) = ((b, e), fs ! Suc i)"
      by blast
    moreover from j have "Suc j \<le> length tags"
      by simp
    ultimately have "pushedDestinations (trace (fs ! Suc j)) =
        pushedDestinations (trace (fs ! 0)) @
          map (\<lambda>tag. destination @ '':'' @ Tag tag) (take (Suc j) tags)"
      by (rule pushImage_chain_pushed)
    with state start
    show "pushedDestinations (trace s') =
        map (\<lambda>tag. destination @ '':'' @ Tag tag) (take (Suc j) tags)"
      by simp
  }
  {
    assume completes: "length cs = Suc (length tags)
      \<and> cs ! 0 = \<lparr>opts = p, world = w2, trace = []\<rparr>
      \<and> (\<forall>i<length tags. \<exists>b. pushImage E (destination @ '':'' @ Tag (tags ! i)) img
             (cs ! i) = ((b, None), cs ! Suc i))"
    note len = completes [THEN conjunct1]
      and start = completes [THEN conjunct2, THEN conjunct1]
      and all = completes [THEN conjunct2, THEN conjunct2]
    have "pushTags E destination img tags \<lparr>opts = p, world = w2, trace = []\<rparr> = ((None, None), cs ! length tags)"
      using len start all by (rule pushTags_completes)
    with loop show "res = (None, None)" and state: "s' = cs ! length tags"
      by simp_all
    from all have "\<forall>i<length tags. \<exists>b e.
        pushImage E (destination @ '':'' @ Tag (tags ! i)) img (cs ! i) = ((b, e), cs ! Suc i)"
      by blast
    moreover have "length tags \<le> length tags"
      by simp
    ultimately have "pushedDestinations (trace (cs ! length tags)) =
        pushedDestinations (trace (cs ! 0)) @
          map (\<lambda>tag. destination @ '':'' @ Tag tag) (take (length tags) tags)"
      by (rule pushImage_chain_pushed)
    with state start
    show "pushedDestinations (trace s') = map (\<lambda>tag. destination @ '':'' @ Tag tag) tags"
      by simp
  }
qed


theorem Push_all_tags_in_order_witness:
  "fst (Push example_env ''app'' ''quay.io/app'' (Some example_all_tags) 0) =
     (None, Some (External ''connection refused''))
   \<and> pushedDestinations (trace (snd (Push example_env ''app'' ''quay.io/app''
         (Some example_all_tags) 0))) = [''quay.io/app:v1'', ''quay.io/app:v2'']
   \<and> fst (Push example_env ''app'' ''ghcr.io/app'' (Some example_all_tags) 0) = (None, None)
   \<and> pushedDestinations (trace (snd (Push example_env ''app'' ''ghcr.io/app''
         (Some example_all_tags) 0))) =
       [''ghcr.io/app:v1'', ''ghcr.io/app:v2'', ''ghcr.io/app:v3'']"
proof -
  let ?s0 = "\<lparr>opts = example_all_tags, world = 2, trace = []\<rparr> :: (nat, nat) state"
  let ?q1 = "snd (pushImage example_env ''quay.io/app:v1'' ''a1b2'' ?s0)"
  let ?q2 = "snd (pushImage example_env ''quay.io/app:v2'' ''a1b2'' ?q1)"
  let ?g1 = "snd (pushImage example_env ''ghcr.io/app:v1'' ''a1b2'' ?s0)"
  let ?g2 = "snd (pushImage example_env ''ghcr.io/app:v2'' ''a1b2'' ?g1)"
  let ?g3 = "snd (pushImage example_env ''ghcr.io/app:v3'' ''a1b2'' ?g2)"
  have tags: "NamedTaggedRepoTags example_env ''a1b2'' (Suc 0) = (Inr example_tags, 2)"
    by (simp add: example_env_def)
  have q1: "fst (pushImage example_env ''quay.io/app:v1'' ''a1b2'' ?s0) = (Some [1, 2, 3], None)"
    by (simp add: pushImage_def Let_def example_defs)
  have q2: "fst (pushImage example_env ''quay.io/app:v2'' ''a1b2'' ?q1) =
      (None, Some (External ''connection refused''))"
    by (simp add: pushImage_def Let_def example_defs)
  have g1: "fst (pushImage example_env ''ghcr.io/app:v1'' ''a1b2'' ?s0) = (Some [1, 2, 3], None)"
    by (simp add: pushImage_def Let_def example_defs)
  have g2: "fst (pushImage example_env ''ghcr.io/app:v2'' ''a1b2'' ?g1) = (Some [1, 2, 3], None)"
    by (simp add: pushImage_def Let_def example_defs)
  have g3: "fst (pushImage example_env ''ghcr.io/app:v3'' ''a1b2'' ?g2) = (Some [1, 2, 3], None)"
    by (simp add: pushImage_def Let_def example_defs)
  have no_colon_q: "\<not> ContainsAny (TrimPrefix ''quay.io/app'' ''docker://'') '':''"
    by (simp add: TrimPrefix_def)
  have no_colon_g: "\<not> ContainsAny (TrimPrefix ''ghcr.io/app'' ''docker://'') '':''"
    by (simp add: TrimPrefix_def)
  have fails: "Suc 0 < length example_tags \<and> length [?s0, ?q1, ?q2] = Suc (Suc (Suc 0))
      \<and> [?s0, ?q1, ?q2] ! 0 = ?s0
      \<and> (\<forall>i<Suc 0. \<exists>b. pushImage example_env (''quay.io/app'' @ '':'' @ Tag (example_tags ! i))
             ''a1b2'' ([?s0, ?q1, ?q2] ! i) = ((b, None), [?s0, ?q1, ?q2] ! Suc i))
      \<and> pushImage example_env (''quay.io/app'' @ '':'' @ Tag (example_tags ! Suc 0)) ''a1b2''
           ([?s0, ?q1, ?q2] ! Suc 0) =
           ((None, Some (External ''connection refused'')), [?s0, ?q1, ?q2] ! Suc (Suc 0))"
    using q1 q2 by (simp add: example_tags_def prod_eq_iff)
  have completes: "length [?s0, ?g1, ?g2, ?g3] = Suc (length example_tags)
      \<and> [?s0, ?g1, ?g2, ?g3] ! 0 = ?s0
      \<and> (\<forall>i<length example_tags. \<exists>b.
             pushImage example_env (''ghcr.io/app'' @ '':'' @ Tag (example_tags ! i)) ''a1b2''
               ([?s0, ?g1, ?g2, ?g3] ! i) = ((b, None), [?s0, ?g1, ?g2, ?g3] ! Suc i))"
    using g1 g2 g3 by (simp add: example_tags_def prod_eq_iff All_less_Suc)
  have dest_q: "''quay.io/app'' =
      (if ''quay.io/app'' = [] then ''localhost/app'' else ''quay.io/app'')"
    and dest_g: "''ghcr.io/app'' =
      (if ''ghcr.io/app'' = [] then ''localhost/app'' else ''ghcr.io/app'')"
    by simp_all
  have run_q: "Push example_env ''app'' ''quay.io/app'' (Some example_all_tags) 0 =
      (fst (Push example_env ''app'' ''quay.io/app'' (Some example_all_tags) 0),
       snd (Push example_env ''app'' ''quay.io/app'' (Some example_all_tags) 0))"
    and run_g: "Push example_env ''app'' ''ghcr.io/app'' (Some example_all_tags) 0 =
      (fst (Push example_env ''app'' ''ghcr.io/app'' (Some example_all_tags) 0),
       snd (Push example_env ''app'' ''ghcr.io/app'' (Some example_all_tags) 0))"
    by simp_all
  note failing = Push_all_tags_in_order
    [where E = example_env and source = "''app''" and ?destination0.0 = "''quay.io/app''"
       and destination = "''quay.io/app''" and ?w0.0 = 0 and img = "''a1b2''"
       and tags = example_tags and ?w2.0 = 2 and p = example_all_tags
       and res = "fst (Push example_env ''app'' ''quay.io/app'' (Some example_all_tags) 0)"
       and s' = "snd (Push example_env ''app'' ''quay.io/app'' (Some example_all_tags) 0)"
       and j = "Suc 0" and fs = "[?s0, ?q1, ?q2]" and b = None
       and err = "External ''connection refused''",
     OF example_all_tags_set example_lookup_app dest_q no_colon_q tags run_q,
     THEN conjunct2, THEN conjunct1, THEN mp, OF fails]
  note complete = Push_all_tags_in_order
    [where E = example_env and source = "''app''" and ?destination0.0 = "''ghcr.io/app''"
       and destination = "''ghcr.io/app''" and ?w0.0 = 0 and img = "''a1b2''"
       and tags = example_tags and ?w2.0 = 2 and p = example_all_tags
       and res = "fst (Push example_env ''app'' ''ghcr.io/app'' (Some example_all_tags) 0)"
       and s' = "snd (Push example_env ''app'' ''ghcr.io/app'' (Some example_all_tags) 0)"
       and cs = "[?s0, ?g1, ?g2, ?g3]",
     OF example_all_tags_set example_lookup_app dest_g no_colon_g tags run_g,
     THEN conjunct2, THEN conjunct2, THEN mp, OF completes]
  from failing [THEN conjunct1] failing [THEN conjunct2, THEN conjunct2]
    complete [THEN conjunct1] complete [THEN conjunct2, THEN conjunct2]
  show ?thesis
    by (simp add: example_tags_def)
qed

subsection \<open>A tag in the destination of an all-tags push\<close>

text \<open>
  C3. For a source that the store finds, a call of \<^verbatim>\<open>Push\<close> with \<open>AllTags\<close> set
  whose destination (the location of the source when the argument is empty) holds a
  colon once a leading \<^verbatim>\<open>docker://\<close> is cut off returns the error
  \<^verbatim>\<open>tag can't be used with --all-tags/-a\<close>. The trace of the call is empty:
  \<^verbatim>\<open>pushImage\<close> is not entered, no copier is made, nothing is copied and no event is
  written; the options are as they were.
\<close>

theorem Push_all_tags_conflicting_tag:
  assumes "AllTags p"
    and "LookupImage E source w0 = (Inr (img, resolvedSource), w1)"
    and "destination = (if destination0 = [] then resolvedSource else destination0)"
    and "ContainsAny (TrimPrefix destination ''docker://'') '':''"
  shows "Push E source destination0 (Some p) w0 =
           ((None, Some (Errorf ''tag can't be used with --all-tags/-a'')),
            \<lparr>opts = p, world = w1, trace = []\<rparr>)"
  using assms by (simp add: Push_conflict)

theorem Push_all_tags_conflicting_tag_witness:
  "ContainsAny (TrimPrefix ''docker://quay.io/app:latest'' ''docker://'') '':''
   \<and> Push example_env ''app'' ''docker://quay.io/app:latest'' (Some example_all_tags) 0 =
       ((None, Some (Errorf ''tag can't be used with --all-tags/-a'')),
        \<lparr>opts = example_all_tags, world = 1, trace = []\<rparr>)"
proof -
  have colon: "ContainsAny (TrimPrefix ''docker://quay.io/app:latest'' ''docker://'') '':''"
    by (simp add: TrimPrefix_def)
  have "Push example_env ''app'' ''docker://quay.io/app:latest'' (Some example_all_tags) 0 =
       ((None, Some (Errorf ''tag can't be used with --all-tags/-a'')),
        \<lparr>opts = example_all_tags, world = Suc 0, trace = []\<rparr>)"
    by (rule Push_all_tags_conflicting_tag
        [OF example_all_tags_set example_lookup_app _ colon]) simp
  with colon show ?thesis by simp
qed

subsection \<open>All tags need the registry transport\<close>

text \<open>
  C4. In \<^verbatim>\<open>pushImage\<close>, once the source reference is there, a call with
  \<open>AllTags\<close> set whose destination resolves to a transport other than
  \<^verbatim>\<open>docker\<close> returns the error
  \<^verbatim>\<open>--all-tags can only be used with docker transport\<close>, having called neither
  the copier nor the event writer. The test reads the reference that resolution
  returned: for a destination that only parses behind \<^verbatim>\<open>docker://\<close>, the call
  is refused exactly when the reference of that second parse has another transport.
\<close>

theorem pushImage_all_tags_needs_docker:
  assumes "StorageReference E img (world s) = (Inr srcRef, w)"
    and "AllTags (opts s)"
  shows "(parseDestination E d1 = Inr destRef \<and> Transport_Name destRef \<noteq> dockerTransport_Name \<longrightarrow>
            pushImage E d1 img s =
              ((None, Some (Errorf ''--all-tags can only be used with docker transport'')),
               s\<lparr>trace := trace s @ [Call_pushImage d1], world := w\<rparr>))
         \<and> (ParseImageName E d2 = Inl err \<and> ParseImageName E (''docker://'' @ d2) = Inr dockerRef \<longrightarrow>
              (fst (pushImage E d2 img s) =
                 (None, Some (Errorf ''--all-tags can only be used with docker transport'')))
              = (Transport_Name dockerRef \<noteq> dockerTransport_Name))"
proof (intro conjI impI)
  assume "parseDestination E d1 = Inr destRef \<and> Transport_Name destRef \<noteq> dockerTransport_Name"
  with assms show "pushImage E d1 img s =
      ((None, Some (Errorf ''--all-tags can only be used with docker transport'')),
       s\<lparr>trace := trace s @ [Call_pushImage d1], world := w\<rparr>)"
    by (simp add: pushImage_rejected)
next
  assume "ParseImageName E d2 = Inl err \<and> ParseImageName E (''docker://'' @ d2) = Inr dockerRef"
  then have resolved: "parseDestination E d2 = Inr dockerRef"
    by (simp add: parseDestination_def)
  show "(fst (pushImage E d2 img s) =
           (None, Some (Errorf ''--all-tags can only be used with docker transport'')))
        = (Transport_Name dockerRef \<noteq> dockerTransport_Name)"
  proof (cases "Transport_Name dockerRef = dockerTransport_Name")
    case True
    with assms(1) resolved have "pushImage E d2 img s =
        runCopier E srcRef dockerRef (deferredEvent E d2 img w)
          (s\<lparr>trace := trace s @ [Call_pushImage d2], world := w,
             opts := archiveTag E d2 dockerRef (opts s)\<rparr>)"
      by (simp add: pushImage_copies)
    then show ?thesis
      using True runCopier_error [of E srcRef dockerRef] by (metis error.distinct(1) prod.collapse)
  next
    case False
    with assms resolved show ?thesis by (simp add: pushImage_rejected)
  qed
qed

theorem pushImage_all_tags_needs_docker_witness:
  "pushImage example_env ''dir:/tmp/app'' ''a1b2'' (example_state example_all_tags) =
     ((None, Some (Errorf ''--all-tags can only be used with docker transport'')),
      \<lparr>opts = example_all_tags, world = 1, trace = [Call_pushImage ''dir:/tmp/app'']\<rparr>)
   \<and> fst (pushImage example_env ''quay.io/app:v2'' ''a1b2'' (example_state example_all_tags)) \<noteq>
       (None, Some (Errorf ''--all-tags can only be used with docker transport''))"
  using pushImage_all_tags_needs_docker
    [where E = example_env and s = "example_state example_all_tags" and img = "''a1b2''"
       and ?d1.0 = "''dir:/tmp/app''" and ?d2.0 = "''quay.io/app:v2''"
       and destRef = "\<lparr>Transport_Name = ''dir'', StringWithinTransport = ''/tmp/app''\<rparr>"
       and err = "''unknown transport''"
       and dockerRef = "\<lparr>Transport_Name = ''docker'', StringWithinTransport = ''//quay.io/app:v2''\<rparr>",
     OF example_StorageReference example_all_tags_opts]
    example_parse_dir example_parse_quay_first example_parse_quay_second
  by (simp add: example_state_def dockerTransport_Name_def)

subsection \<open>Resolving the destination\<close>

text \<open>
  C5. The destination is first parsed as it is. When that parse fails it is parsed again
  behind \<^verbatim>\<open>docker://\<close>, and the reference of the second parse is the resolved
  one. When both parses fail, \<^verbatim>\<open>pushImage\<close> returns the error of the first
  parse, not the error of the second, and calls nothing further.
\<close>

theorem pushImage_destination_fallback:
  assumes "StorageReference E img (world s) = (Inr srcRef, w)"
  shows "(ParseImageName E d1 = Inr r1 \<longrightarrow> parseDestination E d1 = Inr r1)
       \<and> (ParseImageName E d2 = Inl e2 \<and> ParseImageName E (''docker://'' @ d2) = Inr r2 \<longrightarrow>
            parseDestination E d2 = Inr r2)
       \<and> (ParseImageName E d3 = Inl e3 \<and> ParseImageName E (''docker://'' @ d3) = Inl e3' \<longrightarrow>
            parseDestination E d3 = Inl e3
            \<and> pushImage E d3 img s =
                ((None, Some (External e3)),
                 s\<lparr>trace := trace s @ [Call_pushImage d3], world := w\<rparr>))"
  using assms by (simp add: parseDestination_def pushImage_unresolved)

theorem pushImage_destination_fallback_witness:
  "parseDestination example_env ''dir:/tmp/app'' =
     Inr \<lparr>Transport_Name = ''dir'', StringWithinTransport = ''/tmp/app''\<rparr>
   \<and> parseDestination example_env ''quay.io/app:v2'' =
     Inr \<lparr>Transport_Name = ''docker'', StringWithinTransport = ''//quay.io/app:v2''\<rparr>
   \<and> ParseImageName example_env (''docker://'' @ ''my app'') = Inl ''invalid reference format''
   \<and> pushImage example_env ''my app'' ''a1b2'' (example_state PushOptions_zero) =
       ((None, Some (External ''expected colon-separated transport:reference'')),
        \<lparr>opts = PushOptions_zero, world = 1, trace = [Call_pushImage ''my app'']\<rparr>)"
  using pushImage_destination_fallback
    [where E = example_env and s = "example_state PushOptions_zero" and img = "''a1b2''"
       and ?d1.0 = "''dir:/tmp/app''" and ?d2.0 = "''quay.io/app:v2''" and ?d3.0 = "''my app''"
       and ?r1.0 = "\<lparr>Transport_Name = ''dir'', StringWithinTransport = ''/tmp/app''\<rparr>"
       and ?e2.0 = "''unknown transport''"
       and ?r2.0 = "\<lparr>Transport_Name = ''docker'', StringWithinTransport = ''//quay.io/app:v2''\<rparr>"
       and ?e3.0 = "''expected colon-separated transport:reference''"
       and ?e3' = "''invalid reference format''",
     OF example_StorageReference]
    example_parse_dir_first example_parse_quay_first example_parse_quay_second
    example_parse_space_first example_parse_space_second
  by (simp add: example_state_def)

subsection \<open>The tag of a Docker archive\<close>

text \<open>
  C6, as the code has it. Take a call of \<^verbatim>\<open>pushImage\<close> without \<open>AllTags\<close>
  whose destination resolves to the \<^verbatim>\<open>docker-archive\<close> transport. When the
  destination string parses as a named reference with a tag, \<^verbatim>\<open>newCopier\<close> is
  given the copy options with exactly that one reference as the additional tags of the
  archive. When the string parses without a tag or does not parse, the push goes on all
  the same and \<^verbatim>\<open>newCopier\<close> is given the copy options as they were on entry: the
  additional tags are the ones the options already held, none if they held none.
\<close>

theorem pushImage_archive_tags:
  assumes "StorageReference E img (world s) = (Inr srcRef, w)"
    and "parseDestination E destination = Inr destRef"
    and "Transport_Name destRef = dockerArchiveTransport_Name"
    and "\<not> AllTags (opts s)"
  shows "(ParseNamed E destination = Inr (Tagged tagged) \<longrightarrow>
            copierOptions (trace (snd (pushImage E destination img s))) =
              copierOptions (trace s) @
                [(CopyOptions (opts s))\<lparr>dockerArchiveAdditionalTags := [tagged]\<rparr>])
       \<and> (ParseNamed E destination = Inr (Untagged n) \<or> ParseNamed E destination = Inl err \<longrightarrow>
            copierOptions (trace (snd (pushImage E destination img s))) =
              copierOptions (trace s) @ [CopyOptions (opts s)])"
proof -
  have "copierOptions (trace (snd (pushImage E destination img s))) =
      copierOptions (trace s) @ [CopyOptions (archiveTag E destination destRef (opts s))]"
    using assms by (simp add: pushImage_archive_copierOptions)
  then show ?thesis
    using assms(3) by (auto simp: archiveTag_def)
qed

theorem pushImage_archive_tags_witness:
  "copierOptions (trace (snd (pushImage example_env ''docker-archive:5000/app:v1'' ''a1b2''
      (example_state PushOptions_zero)))) =
     [\<lparr>otherFields = [], dockerArchiveAdditionalTags =
        [\<lparr>Repository = ''docker-archive:5000/app'', Tag = ''v1''\<rparr>]\<rparr>]
   \<and> copierOptions (trace (snd (pushImage example_env ''docker-archive:5000/app'' ''a1b2''
      (example_state PushOptions_zero)))) =
     [\<lparr>otherFields = [], dockerArchiveAdditionalTags = []\<rparr>]
   \<and> copierOptions (trace (snd (pushImage example_env ''docker-archive:/tmp/app.tar'' ''a1b2''
      (example_state PushOptions_zero)))) =
     [\<lparr>otherFields = [], dockerArchiveAdditionalTags = []\<rparr>]"
proof -
  note tagged = pushImage_archive_tags
    [where s = "example_state PushOptions_zero" and img = "''a1b2''"
       and tagged = "\<lparr>Repository = ''docker-archive:5000/app'', Tag = ''v1''\<rparr>",
      OF example_StorageReference example_parse_archive_tagged example_archive example_zero_opts]
  note untagged = pushImage_archive_tags
    [where s = "example_state PushOptions_zero" and img = "''a1b2''"
       and n = "''docker-archive:5000/app''",
      OF example_StorageReference example_parse_archive_untagged example_archive
        example_zero_opts]
  note unparsed = pushImage_archive_tags
    [where s = "example_state PushOptions_zero" and img = "''a1b2''"
       and err = "''invalid reference format''",
      OF example_StorageReference example_parse_archive_file example_archive example_zero_opts]
  from tagged untagged unparsed show ?thesis
    using example_named_tagged example_named_untagged example_named_file
    by (simp add: example_trace example_opts PushOptions_zero_def)
qed

text \<open>
  The list is not always empty for a destination without a tag. Options that an
  earlier push to \<^verbatim>\<open>docker-archive:5000/app:v1\<close> has left are used again for
  \<^verbatim>\<open>docker-archive:/tmp/app.tar\<close>, which does not parse as a named reference: the
  copier is given the tag of the earlier push.
\<close>

theorem pushImage_archive_tags_counterexample:
  "parseDestination example_env ''docker-archive:/tmp/app.tar'' =
     Inr \<lparr>Transport_Name = ''docker-archive'', StringWithinTransport = ''/tmp/app.tar''\<rparr>
   \<and> ParseNamed example_env ''docker-archive:/tmp/app.tar'' = Inl ''invalid reference format''
   \<and> copierOptions (trace (snd (pushImage example_env ''docker-archive:/tmp/app.tar'' ''c3d4''
        (example_state (opts (snd (pushImage example_env ''docker-archive:5000/app:v1'' ''a1b2''
           (example_state PushOptions_zero)))))))) =
       [\<lparr>otherFields = [], dockerArchiveAdditionalTags =
          [\<lparr>Repository = ''docker-archive:5000/app'', Tag = ''v1''\<rparr>]\<rparr>]"
  by (simp add: example_parse_archive_file example_named_file example_run_archive_file_after)

subsection \<open>The empty destination\<close>

text \<open>
  C7. For a source that the store finds, \<^verbatim>\<open>Push\<close> with the empty destination
  does what \<^verbatim>\<open>Push\<close> does with the location string that the lookup returned:
  without \<open>AllTags\<close> it is the call of \<^verbatim>\<open>pushImage\<close> on that string, with
  \<open>AllTags\<close> the loop runs with that string as the base of every destination.
\<close>

theorem Push_empty_destination:
  assumes "LookupImage E source w0 = (Inr (img, resolvedSource), w1)"
  shows "Push E source [] options0 w0 = Push E source resolvedSource options0 w0
       \<and> (\<not> AllTags (case options0 of None \<Rightarrow> PushOptions_zero | Some p \<Rightarrow> p) \<longrightarrow>
            Push E source [] options0 w0 =
              pushImage E resolvedSource img
                \<lparr>opts = (case options0 of None \<Rightarrow> PushOptions_zero | Some p \<Rightarrow> p),
                 world = w1, trace = []\<rparr>)
       \<and> (options0 = Some p \<and> AllTags p
            \<and> \<not> ContainsAny (TrimPrefix resolvedSource ''docker://'') '':''
            \<and> NamedTaggedRepoTags E img w1 = (Inr tags, w2) \<longrightarrow>
            Push E source [] options0 w0 =
              pushTags E resolvedSource img tags \<lparr>opts = p, world = w2, trace = []\<rparr>)"
proof (intro conjI impI)
  show "Push E source [] options0 w0 = Push E source resolvedSource options0 w0"
    using assms by (simp add: Push_def Let_def)
next
  assume "\<not> AllTags (case options0 of None \<Rightarrow> PushOptions_zero | Some p \<Rightarrow> p)"
  with assms show "Push E source [] options0 w0 =
      pushImage E resolvedSource img
        \<lparr>opts = (case options0 of None \<Rightarrow> PushOptions_zero | Some p \<Rightarrow> p),
         world = w1, trace = []\<rparr>"
    by (simp add: Push_single)
next
  assume "options0 = Some p \<and> AllTags p
      \<and> \<not> ContainsAny (TrimPrefix resolvedSource ''docker://'') '':''
      \<and> NamedTaggedRepoTags E img w1 = (Inr tags, w2)"
  with assms show "Push E source [] options0 w0 =
      pushTags E resolvedSource img tags \<lparr>opts = p, world = w2, trace = []\<rparr>"
    using Push_loop [of E source w0 img resolvedSource w1 p "[]" tags w2] by simp
qed

theorem Push_empty_destination_witness:
  "Push example_env ''app'' [] None 0 = Push example_env ''app'' ''localhost/app'' None 0
   \<and> pushedDestinations (trace (snd (Push example_env ''app'' [] None 0))) = [''localhost/app'']
   \<and> Push example_env ''base'' [] (Some example_all_tags) 0 =
       pushTags example_env ''localhost/base'' ''c3d4'' []
         \<lparr>opts = example_all_tags, world = 2, trace = []\<rparr>"
proof -
  have zero: "\<not> AllTags (case None of None \<Rightarrow> PushOptions_zero | Some p \<Rightarrow> p)"
    by (simp add: PushOptions_zero_def)
  have no_colon: "\<not> ContainsAny (TrimPrefix ''localhost/base'' ''docker://'') '':''"
    by (simp add: TrimPrefix_def)
  note single = Push_empty_destination
    [where E = example_env and source = "''app''" and ?w0.0 = 0 and ?options0.0 = None,
      OF example_lookup_app]
  note multi = Push_empty_destination
    [where E = example_env and source = "''base''" and ?w0.0 = 0
       and ?options0.0 = "Some example_all_tags" and p = example_all_tags and tags = "[]"
       and ?w2.0 = 2,
      OF example_lookup_base]
  from single [unfolded option.case] zero [unfolded option.case]
  have both: "Push example_env ''app'' [] None 0 = Push example_env ''app'' ''localhost/app'' None 0
    \<and> Push example_env ''app'' [] None 0 =
      pushImage example_env ''localhost/app'' ''a1b2''
        \<lparr>opts = PushOptions_zero, world = Suc 0, trace = []\<rparr>"
    by blast
  then have same: "Push example_env ''app'' [] None 0 =
      Push example_env ''app'' ''localhost/app'' None 0"
    and run: "Push example_env ''app'' [] None 0 =
      pushImage example_env ''localhost/app'' ''a1b2''
        \<lparr>opts = PushOptions_zero, world = Suc 0, trace = []\<rparr>"
    by blast+
  have pushed: "pushedDestinations (trace (snd (Push example_env ''app'' [] None 0))) =
      [''localhost/app'']"
    unfolding run by (simp add: pushImage_pushed)
  have tags: "NamedTaggedRepoTags example_env ''c3d4'' (Suc 0) = (Inr [], 2)"
    by (simp add: example_env_def)
  from multi no_colon example_all_tags_set tags
  have loop: "Push example_env ''base'' [] (Some example_all_tags) 0 =
      pushTags example_env ''localhost/base'' ''c3d4'' []
        \<lparr>opts = example_all_tags, world = 2, trace = []\<rparr>"
    by blast
  from same pushed loop show ?thesis by blast
qed

subsection \<open>No tags and no payload\<close>

text \<open>
  C8. With \<open>AllTags\<close> set, a source that the store finds, a destination without a
  tag and an image that has no named tagged repo tags, \<^verbatim>\<open>Push\<close> returns no error
  and no bytes and its trace is empty: \<^verbatim>\<open>pushImage\<close> is never entered. And whenever
  a call with \<open>AllTags\<close> set returns no error, whatever the number of tags, the bytes
  it returns are \<^verbatim>\<open>nil\<close>.
\<close>

theorem Push_all_tags_no_payload:
  assumes "AllTags p"
  shows "(LookupImage E source w0 = (Inr (img, resolvedSource), w1)
            \<and> \<not> ContainsAny (TrimPrefix (if destination0 = [] then resolvedSource
                  else destination0) ''docker://'') '':''
            \<and> NamedTaggedRepoTags E img w1 = (Inr [], w2) \<longrightarrow>
            Push E source destination0 (Some p) w0 =
              ((None, None), \<lparr>opts = p, world = w2, trace = []\<rparr>))
       \<and> (snd (fst (Push E source' destination' (Some p) w')) = None \<longrightarrow>
            fst (fst (Push E source' destination' (Some p) w')) = None)"
  using assms by (auto simp: Push_loop Push_all_tags_bytes)

theorem Push_all_tags_no_payload_witness:
  "Push example_env ''base'' ''docker://quay.io/base'' (Some example_all_tags) 0 =
     ((None, None), \<lparr>opts = example_all_tags, world = 2, trace = []\<rparr>)
   \<and> pushedDestinations (trace (snd (Push example_env ''app'' ''ghcr.io/app''
         (Some example_all_tags) 0))) =
       [''ghcr.io/app:v1'', ''ghcr.io/app:v2'', ''ghcr.io/app:v3'']
   \<and> fst (Push example_env ''app'' ''ghcr.io/app'' (Some example_all_tags) 0) = (None, None)"
proof -
  have no_colon: "\<not> ContainsAny (TrimPrefix (if ''docker://quay.io/base'' = [] then
      ''localhost/base'' else ''docker://quay.io/base'') ''docker://'') '':''"
    by (simp add: TrimPrefix_def)
  show ?thesis
    using Push_all_tags_no_payload
      [where E = example_env and source = "''base''" and ?w0.0 = 0 and img = "''c3d4''"
         and resolvedSource = "''localhost/base''" and ?w1.0 = 1
         and ?destination0.0 = "''docker://quay.io/base''" and ?w2.0 = 2
         and source' = "''app''" and destination' = "''ghcr.io/app''" and w' = 0,
        OF example_all_tags_set]
      no_colon example_lookup_base [of 0] example_tags_base [of 1] example_push_ghcr
    by (simp add: prod_eq_iff)
qed

subsection \<open>All tags and a destination with another transport\<close>

text \<open>
  C9. For a source that the store finds, a call of \<^verbatim>\<open>Push\<close> with \<open>AllTags\<close> set
  and a destination of the form \<open>scheme:rest\<close>, where \<open>scheme\<close> is not
  \<^verbatim>\<open>docker\<close>, returns the error \<^verbatim>\<open>tag can't be used with --all-tags/-a\<close>
  and not the error \<^verbatim>\<open>--all-tags can only be used with docker transport\<close>: cutting
  off \<^verbatim>\<open>docker://\<close> leaves the colon after the scheme in place. And when
  \<^verbatim>\<open>Push\<close> does return the second error, \<open>AllTags\<close> is set, the destination
  without a leading \<^verbatim>\<open>docker://\<close> holds no colon, and for one of the tags of
  the image the destination followed by a colon and that tag resolves to a transport
  other than \<^verbatim>\<open>docker\<close>.
\<close>

theorem Push_all_tags_other_transport:
  shows "(AllTags p \<and> LookupImage E source w0 = (Inr (img, resolvedSource), w1)
            \<and> destination0 = scheme @ '':'' @ rest \<and> scheme \<noteq> ''docker'' \<longrightarrow>
            Push E source destination0 (Some p) w0 =
              ((None, Some (Errorf ''tag can't be used with --all-tags/-a'')),
               \<lparr>opts = p, world = w1, trace = []\<rparr>))
       \<and> (Push E source' destination' options' w' =
            ((b, Some (Errorf ''--all-tags can only be used with docker transport'')), s') \<longrightarrow>
            (\<exists>p' img' resolved' w1' tags w2' tag r.
               options' = Some p' \<and> AllTags p'
               \<and> LookupImage E source' w' = (Inr (img', resolved'), w1')
               \<and> \<not> ContainsAny (TrimPrefix (if destination' = [] then resolved'
                     else destination') ''docker://'') '':''
               \<and> NamedTaggedRepoTags E img' w1' = (Inr tags, w2')
               \<and> tag \<in> set tags
               \<and> parseDestination E ((if destination' = [] then resolved' else destination')
                     @ '':'' @ Tag tag) = Inr r
               \<and> Transport_Name r \<noteq> dockerTransport_Name))"
proof (intro conjI impI)
  assume a: "AllTags p \<and> LookupImage E source w0 = (Inr (img, resolvedSource), w1)
      \<and> destination0 = scheme @ '':'' @ rest \<and> scheme \<noteq> ''docker''"
  then have other: "scheme \<noteq> ''docker''" and form: "destination0 = scheme @ '':'' @ rest"
    by blast+
  from form have "destination0 \<noteq> []" by simp
  moreover have "CHR '':'' \<in> set (TrimPrefix destination0 ''docker://'')"
    unfolding form by (rule colon_survives_TrimPrefix [OF other])
  ultimately show "Push E source destination0 (Some p) w0 =
      ((None, Some (Errorf ''tag can't be used with --all-tags/-a'')),
       \<lparr>opts = p, world = w1, trace = []\<rparr>)"
    using a Push_conflict [of E source w0 img resolvedSource w1 p destination0] by simp
next
  assume run: "Push E source' destination' options' w' =
      ((b, Some (Errorf ''--all-tags can only be used with docker transport'')), s')"
  let ?m = "''--all-tags can only be used with docker transport''"
  let ?o = "case options' of None \<Rightarrow> PushOptions_zero | Some p \<Rightarrow> p"
  obtain x w1' where look: "LookupImage E source' w' = (x, w1')"
    by (cases "LookupImage E source' w'")
  show "\<exists>p' img' resolved' w1' tags w2' tag r.
      options' = Some p' \<and> AllTags p'
      \<and> LookupImage E source' w' = (Inr (img', resolved'), w1')
      \<and> \<not> ContainsAny (TrimPrefix (if destination' = [] then resolved'
            else destination') ''docker://'') '':''
      \<and> NamedTaggedRepoTags E img' w1' = (Inr tags, w2')
      \<and> tag \<in> set tags
      \<and> parseDestination E ((if destination' = [] then resolved' else destination')
            @ '':'' @ Tag tag) = Inr r
      \<and> Transport_Name r \<noteq> dockerTransport_Name"
  proof (cases x)
    case (Inl err)
    with look run show ?thesis by (simp add: Push_lookup_fails)
  next
    case (Inr found)
    obtain img' resolved' where found: "found = (img', resolved')"
      by (cases found)
    let ?d = "if destination' = [] then resolved' else destination'"
    from look Inr found have look': "LookupImage E source' w' = (Inr (img', resolved'), w1')"
      by simp
    show ?thesis
    proof (cases "AllTags ?o")
      case False
      with look' have "Push E source' destination' options' w' =
          pushImage E ?d img' \<lparr>opts = ?o, world = w1', trace = []\<rparr>"
        by (rule Push_single)
      with run pushImage_Errorf [of E ?d img' "\<lparr>opts = ?o, world = w1', trace = []\<rparr>" b ?m s']
      have "AllTags ?o" by simp
      with False show ?thesis by simp
    next
      case True
      then obtain p' where p': "options' = Some p'" "AllTags p'"
        by (cases options') (simp_all add: PushOptions_zero_def)
      show ?thesis
      proof (cases "CHR '':'' \<in> set (TrimPrefix ?d ''docker://'')")
        case True
        with look' p' run show ?thesis
          using Push_conflict [of E source' w' img' resolved' w1' p' destination'] by simp
      next
        case no_colon: False
        obtain y w2' where tags: "NamedTaggedRepoTags E img' w1' = (y, w2')"
          by (cases "NamedTaggedRepoTags E img' w1'")
        show ?thesis
        proof (cases y)
          case (Inl err)
          with look' p' no_colon tags run show ?thesis
            using Push_tags_fail [of E source' w' img' resolved' w1' p' destination' err w2']
            by simp
        next
          case (Inr ts)
          with look' p' no_colon tags
          have "Push E source' destination' options' w' =
              pushTags E ?d img' ts \<lparr>opts = p', world = w2', trace = []\<rparr>"
            using Push_loop [of E source' w' img' resolved' w1' p' destination' ts w2']
            by simp
          with run have "pushTags E ?d img' ts \<lparr>opts = p', world = w2', trace = []\<rparr> =
              ((b, Some (Errorf ?m)), s')"
            by simp
          from pushTags_Errorf [OF this] obtain tag r where "tag \<in> set ts"
            "parseDestination E (?d @ '':'' @ Tag tag) = Inr r"
            "Transport_Name r \<noteq> dockerTransport_Name"
            by blast
          with look' p' no_colon tags Inr show ?thesis
            by (intro exI [of _ p'] exI [of _ img'] exI [of _ resolved'] exI [of _ w1']
                exI [of _ ts] exI [of _ w2'] exI [of _ tag] exI [of _ r]) simp
        qed
      qed
    qed
  qed
qed


theorem Push_all_tags_other_transport_witness:
  "Push example_env ''app'' ''oci-archive:/tmp/app.tar'' (Some example_all_tags) 0 =
     ((None, Some (Errorf ''tag can't be used with --all-tags/-a'')),
      \<lparr>opts = example_all_tags, world = 1, trace = []\<rparr>)
   \<and> Push example_env ''app'' ''dir'' (Some example_all_tags) 0 =
     ((None, Some (Errorf ''--all-tags can only be used with docker transport'')),
      \<lparr>opts = example_all_tags, world = 3, trace = [Call_pushImage ''dir:v1'']\<rparr>)
   \<and> (\<exists>tag r. tag \<in> set example_tags
         \<and> parseDestination example_env (''dir'' @ '':'' @ Tag tag) = Inr r
         \<and> Transport_Name r \<noteq> dockerTransport_Name)"
proof -
  note both = Push_all_tags_other_transport
    [where E = example_env and p = example_all_tags and source = "''app''" and ?w0.0 = 0
       and img = "''a1b2''" and resolvedSource = "''localhost/app''" and ?w1.0 = 1
       and ?destination0.0 = "''oci-archive:/tmp/app.tar''" and scheme = "''oci-archive''"
       and rest = "''/tmp/app.tar''"
       and source' = "''app''" and destination' = "''dir''"
       and options' = "Some example_all_tags" and w' = 0 and b = None
       and s' = "\<lparr>opts = example_all_tags, world = 3, trace = [Call_pushImage ''dir:v1'']\<rparr>"]
  have look: "LookupImage example_env ''app'' 0 = (Inr (''a1b2'', ''localhost/app''), 1)"
    by (simp add: example_env_def)
  from both look example_all_tags_set
  have conflict: "Push example_env ''app'' ''oci-archive:/tmp/app.tar'' (Some example_all_tags) 0 =
     ((None, Some (Errorf ''tag can't be used with --all-tags/-a'')),
      \<lparr>opts = example_all_tags, world = 1, trace = []\<rparr>)"
    by simp
  from both example_push_dir
  obtain p' img' resolved' w1' tags w2' tag r where
    "LookupImage example_env ''app'' 0 = (Inr (img', resolved'), w1')"
    "NamedTaggedRepoTags example_env img' w1' = (Inr tags, w2')"
    "tag \<in> set tags"
    "parseDestination example_env ((if ''dir'' = [] then resolved' else ''dir'') @ '':'' @ Tag tag)
       = Inr r"
    "Transport_Name r \<noteq> dockerTransport_Name"
    by blast
  then have "\<exists>tag r. tag \<in> set example_tags
         \<and> parseDestination example_env (''dir'' @ '':'' @ Tag tag) = Inr r
         \<and> Transport_Name r \<noteq> dockerTransport_Name"
    using look example_tags_app [of 1] by auto
  with conflict example_push_dir show ?thesis by blast
qed

subsection \<open>The options after the call\<close>

text \<open>
  C10. \<^verbatim>\<open>pushImage\<close> changes the options that the caller passed, and only in one
  field: after any call the options are the ones before it except, at most, for the
  additional tags of the archive, and those are either what they were or the single
  tagged reference that the destination parses to. So the field is never emptied.
  A push without \<open>AllTags\<close> to a \<^verbatim>\<open>docker-archive\<close> destination that parses
  with a tag leaves that tag in the options, whatever happens later in the call. A later
  push with these options to a \<^verbatim>\<open>docker-archive\<close> destination that parses without
  a tag, or does not parse, hands the tag of the earlier call to \<^verbatim>\<open>newCopier\<close>, and
  the tag is still in the options afterwards.
\<close>

theorem pushImage_options_mutation:
  shows "opts (snd (pushImage E d img s)) =
           (opts s)\<lparr>CopyOptions := (CopyOptions (opts s))\<lparr>dockerArchiveAdditionalTags :=
              dockerArchiveAdditionalTags (CopyOptions (opts (snd (pushImage E d img s))))\<rparr>\<rparr>
       \<and> (dockerArchiveAdditionalTags (CopyOptions (opts (snd (pushImage E d img s)))) =
            dockerArchiveAdditionalTags (CopyOptions (opts s))
          \<or> (\<exists>tagged. ParseNamed E d = Inr (Tagged tagged)
                \<and> dockerArchiveAdditionalTags (CopyOptions (opts (snd (pushImage E d img s)))) =
                    [tagged]))
       \<and> (StorageReference E img1 (world s1) = (Inr srcRef1, w1)
            \<and> parseDestination E d1 = Inr destRef1
            \<and> Transport_Name destRef1 = dockerArchiveTransport_Name
            \<and> \<not> AllTags (opts s1)
            \<and> ParseNamed E d1 = Inr (Tagged tagged1) \<longrightarrow>
          dockerArchiveAdditionalTags (CopyOptions (opts (snd (pushImage E d1 img1 s1)))) =
            [tagged1]
          \<and> (opts s2 = opts (snd (pushImage E d1 img1 s1))
                \<and> StorageReference E img2 (world s2) = (Inr srcRef2, w2)
                \<and> parseDestination E d2 = Inr destRef2
                \<and> Transport_Name destRef2 = dockerArchiveTransport_Name
                \<and> (ParseNamed E d2 = Inr (Untagged n) \<or> ParseNamed E d2 = Inl err) \<longrightarrow>
              copierOptions (trace (snd (pushImage E d2 img2 s2))) =
                copierOptions (trace s2) @
                  [(CopyOptions (opts s1))\<lparr>dockerArchiveAdditionalTags := [tagged1]\<rparr>]
              \<and> dockerArchiveAdditionalTags (CopyOptions (opts (snd (pushImage E d2 img2 s2)))) =
                  [tagged1]))"
proof (intro conjI impI)
  let ?s' = "snd (pushImage E d img s)"
  from pushImage_opts [of E d img s]
  show "opts ?s' = (opts s)\<lparr>CopyOptions := (CopyOptions (opts s))\<lparr>dockerArchiveAdditionalTags :=
      dockerArchiveAdditionalTags (CopyOptions (opts ?s'))\<rparr>\<rparr>"
    using archiveTag_frame by (elim disjE exE conjE) simp_all
  from pushImage_opts [of E d img s]
  show "dockerArchiveAdditionalTags (CopyOptions (opts ?s')) =
        dockerArchiveAdditionalTags (CopyOptions (opts s))
      \<or> (\<exists>tagged. ParseNamed E d = Inr (Tagged tagged)
            \<and> dockerArchiveAdditionalTags (CopyOptions (opts ?s')) = [tagged])"
    by (elim disjE exE conjE) (auto simp: archiveTag_tags split: sum.splits Named.splits)
next
  assume first: "StorageReference E img1 (world s1) = (Inr srcRef1, w1)
      \<and> parseDestination E d1 = Inr destRef1
      \<and> Transport_Name destRef1 = dockerArchiveTransport_Name
      \<and> \<not> AllTags (opts s1)
      \<and> ParseNamed E d1 = Inr (Tagged tagged1)"
  then have after: "opts (snd (pushImage E d1 img1 s1)) = archiveTag E d1 destRef1 (opts s1)"
    by (simp add: pushImage_archive_copierOptions)
  with first
  show written: "dockerArchiveAdditionalTags (CopyOptions (opts (snd (pushImage E d1 img1 s1)))) =
      [tagged1]"
    by (simp add: archiveTag_tags)
  assume second: "opts s2 = opts (snd (pushImage E d1 img1 s1))
      \<and> StorageReference E img2 (world s2) = (Inr srcRef2, w2)
      \<and> parseDestination E d2 = Inr destRef2
      \<and> Transport_Name destRef2 = dockerArchiveTransport_Name
      \<and> (ParseNamed E d2 = Inr (Untagged n) \<or> ParseNamed E d2 = Inl err)"
  from first after second have same: "opts s2 =
      (opts s1)\<lparr>CopyOptions := (CopyOptions (opts s1))\<lparr>dockerArchiveAdditionalTags := [tagged1]\<rparr>\<rparr>"
    by (simp add: archiveTag_def)
  with first have single: "\<not> AllTags (opts s2)"
    by simp
  from second have unchanged: "archiveTag E d2 destRef2 (opts s2) = opts s2"
    by (auto simp: archiveTag_def)
  from second single
  have "copierOptions (trace (snd (pushImage E d2 img2 s2))) =
      copierOptions (trace s2) @ [CopyOptions (archiveTag E d2 destRef2 (opts s2))]"
    and "opts (snd (pushImage E d2 img2 s2)) = archiveTag E d2 destRef2 (opts s2)"
    by (simp_all add: pushImage_archive_copierOptions)
  with unchanged same
  show "copierOptions (trace (snd (pushImage E d2 img2 s2))) =
      copierOptions (trace s2) @
        [(CopyOptions (opts s1))\<lparr>dockerArchiveAdditionalTags := [tagged1]\<rparr>]"
    and "dockerArchiveAdditionalTags (CopyOptions (opts (snd (pushImage E d2 img2 s2)))) =
      [tagged1]"
    by simp_all
qed


theorem pushImage_options_mutation_witness:
  "dockerArchiveAdditionalTags (CopyOptions (opts (snd (pushImage example_env
      ''docker-archive:5000/app:v1'' ''a1b2'' (example_state PushOptions_zero))))) =
     [\<lparr>Repository = ''docker-archive:5000/app'', Tag = ''v1''\<rparr>]
   \<and> copierOptions (trace (snd (pushImage example_env ''docker-archive:5000/app'' ''c3d4''
        (snd (pushImage example_env ''docker-archive:5000/app:v1'' ''a1b2''
           (example_state PushOptions_zero)))))) =
       [\<lparr>otherFields = [], dockerArchiveAdditionalTags =
          [\<lparr>Repository = ''docker-archive:5000/app'', Tag = ''v1''\<rparr>]\<rparr>,
        \<lparr>otherFields = [], dockerArchiveAdditionalTags =
          [\<lparr>Repository = ''docker-archive:5000/app'', Tag = ''v1''\<rparr>]\<rparr>]
   \<and> opts (snd (pushImage example_env ''quay.io/app:v1'' ''a1b2''
        (example_state example_missing_auth))) = example_missing_auth"
proof -
  let ?s1 = "example_state PushOptions_zero"
  let ?s2 = "snd (pushImage example_env ''docker-archive:5000/app:v1'' ''a1b2'' ?s1)"
  note inst = pushImage_options_mutation
    [where E = example_env and d = "''quay.io/app:v1''" and img = "''a1b2''"
       and s = "example_state example_missing_auth"
       and ?d1.0 = "''docker-archive:5000/app:v1''" and ?img1.0 = "''a1b2''" and ?s1.0 = ?s1
       and ?srcRef1.0 = "\<lparr>Transport_Name = ''containers-storage'',
             StringWithinTransport = ''a1b2''\<rparr>"
       and ?w1.0 = "Suc (world ?s1)"
       and ?destRef1.0 = "\<lparr>Transport_Name = ''docker-archive'',
             StringWithinTransport = ''5000/app:v1''\<rparr>"
       and ?tagged1.0 = "\<lparr>Repository = ''docker-archive:5000/app'', Tag = ''v1''\<rparr>"
       and ?s2.0 = ?s2 and ?img2.0 = "''c3d4''" and ?d2.0 = "''docker-archive:5000/app''"
       and ?srcRef2.0 = "\<lparr>Transport_Name = ''containers-storage'',
             StringWithinTransport = ''c3d4''\<rparr>"
       and ?w2.0 = "Suc (world ?s2)"
       and ?destRef2.0 = "\<lparr>Transport_Name = ''docker-archive'',
             StringWithinTransport = ''5000/app''\<rparr>"
       and n = "''docker-archive:5000/app''"]
  have written: "dockerArchiveAdditionalTags (CopyOptions (opts ?s2)) =
      [\<lparr>Repository = ''docker-archive:5000/app'', Tag = ''v1''\<rparr>]"
    and leaked: "copierOptions (trace (snd (pushImage example_env ''docker-archive:5000/app''
        ''c3d4'' ?s2))) =
      copierOptions (trace ?s2) @
        [(CopyOptions (opts ?s1))\<lparr>dockerArchiveAdditionalTags :=
           [\<lparr>Repository = ''docker-archive:5000/app'', Tag = ''v1''\<rparr>]\<rparr>]"
    using inst example_StorageReference example_parse_archive_tagged
      example_parse_archive_untagged example_archive example_zero_opts
      example_named_tagged example_named_untagged
    by simp_all
  have frame: "opts (snd (pushImage example_env ''quay.io/app:v1'' ''a1b2''
      (example_state example_missing_auth))) = example_missing_auth"
    by (simp add: example_run_missing_auth)
  have before: "copierOptions (trace ?s2) =
      [\<lparr>otherFields = [], dockerArchiveAdditionalTags =
         [\<lparr>Repository = ''docker-archive:5000/app'', Tag = ''v1''\<rparr>]\<rparr>]"
    by (simp add: example_run_archive_tagged)
  from written leaked frame before show ?thesis
    by (simp add: example_opts PushOptions_zero_def)
qed

end
